theory Spec2Isabelle
  imports Main "HOL-Library.Sublist"
begin

section \<open>JavaScript values and errors\<close>

text \<open>
  Properties read from an object typed \<^verbatim>\<open>any\<close> may hold any JavaScript value.
  Numbers are kept as integers (no NaN, no fractions), objects are not modelled.
\<close>

datatype jsany = JUndefined | JNull | JBool bool | JNumber int | JString string

text \<open>The coercion \<^verbatim>\<open>!!v\<close>.\<close>

fun truthy :: "jsany \<Rightarrow> bool" where
  "truthy JUndefined = False"
| "truthy JNull = False"
| "truthy (JBool b) = b"
| "truthy (JNumber n) = (n \<noteq> 0)"
| "truthy (JString s) = (s \<noteq> [])"

text \<open>
  A thrown value: \<^verbatim>\<open>Error(msg)\<close> as thrown by the repository's code, \<^verbatim>\<open>TypeError\<close>
  as thrown by the runtime (reading a property of \<^verbatim>\<open>undefined\<close>, a non-string handed
  to \<^verbatim>\<open>path.join\<close>), and \<^verbatim>\<open>SystemError\<close> for a failed file-system or process call.
\<close>

datatype error = Error string | TypeError string | SystemError string

fun errorToString :: "error \<Rightarrow> string" where
  "errorToString (Error m) = ''Error: '' @ m"
| "errorToString (TypeError m) = ''TypeError: '' @ m"
| "errorToString (SystemError m) = ''Error: '' @ m"

section \<open>The integration test suite: scenario matrix\<close>

record TestScenario =
  displayName :: string
  runtime :: string
  baseImage :: "string option"
  path :: string
  debugSessionType :: string
  language :: string
  dependencyManager :: string

definition scenarios :: "TestScenario list" where
  "scenarios = [
    \<lparr>displayName = ''nodejs10.x (ZIP)'', runtime = ''nodejs10.x'', baseImage = None,
      path = ''hello-world/app.js'', debugSessionType = ''pwa-node'',
      language = ''javascript'', dependencyManager = ''npm''\<rparr>,
    \<lparr>displayName = ''nodejs12.x (ZIP)'', runtime = ''nodejs12.x'', baseImage = None,
      path = ''hello-world/app.js'', debugSessionType = ''pwa-node'',
      language = ''javascript'', dependencyManager = ''npm''\<rparr>,
    \<lparr>displayName = ''nodejs14.x (ZIP)'', runtime = ''nodejs14.x'', baseImage = None,
      path = ''hello-world/app.js'', debugSessionType = ''pwa-node'',
      language = ''javascript'', dependencyManager = ''npm''\<rparr>,
    \<lparr>displayName = ''python2.7 (ZIP)'', runtime = ''python2.7'', baseImage = None,
      path = ''hello_world/app.py'', debugSessionType = ''python'',
      language = ''python'', dependencyManager = ''pip''\<rparr>,
    \<lparr>displayName = ''python3.6 (ZIP)'', runtime = ''python3.6'', baseImage = None,
      path = ''hello_world/app.py'', debugSessionType = ''python'',
      language = ''python'', dependencyManager = ''pip''\<rparr>,
    \<lparr>displayName = ''python3.7 (ZIP)'', runtime = ''python3.7'', baseImage = None,
      path = ''hello_world/app.py'', debugSessionType = ''python'',
      language = ''python'', dependencyManager = ''pip''\<rparr>,
    \<lparr>displayName = ''python3.8 (ZIP)'', runtime = ''python3.8'', baseImage = None,
      path = ''hello_world/app.py'', debugSessionType = ''python'',
      language = ''python'', dependencyManager = ''pip''\<rparr>,
    \<lparr>displayName = ''java8 (Gradle ZIP)'', runtime = ''java8'', baseImage = None,
      path = ''HelloWorldFunction/src/main/java/helloworld/App.java'', debugSessionType = ''java'',
      language = ''java'', dependencyManager = ''gradle''\<rparr>,
    \<lparr>displayName = ''java8.al2 (Maven ZIP)'', runtime = ''java8.al2'', baseImage = None,
      path = ''HelloWorldFunction/src/main/java/helloworld/App.java'', debugSessionType = ''java'',
      language = ''java'', dependencyManager = ''maven''\<rparr>,
    \<lparr>displayName = ''java11 (Gradle ZIP)'', runtime = ''java11'', baseImage = None,
      path = ''HelloWorldFunction/src/main/java/helloworld/App.java'', debugSessionType = ''java'',
      language = ''java'', dependencyManager = ''gradle''\<rparr>,
    \<lparr>displayName = ''nodejs10.x (Image)'', runtime = ''nodejs10.x'',
      baseImage = Some ''amazon/nodejs10.x-base'',
      path = ''hello-world/app.js'', debugSessionType = ''pwa-node'',
      language = ''javascript'', dependencyManager = ''npm''\<rparr>,
    \<lparr>displayName = ''nodejs12.x (Image)'', runtime = ''nodejs12.x'',
      baseImage = Some ''amazon/nodejs12.x-base'',
      path = ''hello-world/app.js'', debugSessionType = ''pwa-node'',
      language = ''javascript'', dependencyManager = ''npm''\<rparr>,
    \<lparr>displayName = ''nodejs14.x (Image)'', runtime = ''nodejs14.x'',
      baseImage = Some ''amazon/nodejs14.x-base'',
      path = ''hello-world/app.js'', debugSessionType = ''pwa-node'',
      language = ''javascript'', dependencyManager = ''npm''\<rparr>,
    \<lparr>displayName = ''python3.6 (Image)'', runtime = ''python3.6'',
      baseImage = Some ''amazon/python3.6-base'',
      path = ''hello_world/app.py'', debugSessionType = ''python'',
      language = ''python'', dependencyManager = ''pip''\<rparr>,
    \<lparr>displayName = ''python3.7 (Image)'', runtime = ''python3.7'',
      baseImage = Some ''amazon/python3.7-base'',
      path = ''hello_world/app.py'', debugSessionType = ''python'',
      language = ''python'', dependencyManager = ''pip''\<rparr>,
    \<lparr>displayName = ''java8 (Maven Image)'', runtime = ''java8'',
      baseImage = Some ''amazon/java8-base'',
      path = ''HelloWorldFunction/src/main/java/helloworld/App.java'', debugSessionType = ''java'',
      language = ''java'', dependencyManager = ''maven''\<rparr>,
    \<lparr>displayName = ''java8.al2 (Gradle Image)'', runtime = ''java8.al2'',
      baseImage = Some ''amazon/java8.al2-base'',
      path = ''HelloWorldFunction/src/main/java/helloworld/App.java'', debugSessionType = ''java'',
      language = ''java'', dependencyManager = ''gradle''\<rparr>,
    \<lparr>displayName = ''java11 (Maven Image)'', runtime = ''java11'',
      baseImage = Some ''amazon/java11-base'',
      path = ''HelloWorldFunction/src/main/java/helloworld/App.java'', debugSessionType = ''java'',
      language = ''java'', dependencyManager = ''maven''\<rparr>
  ]"

text \<open>
  \<^verbatim>\<open>if (scenario.baseImage)\<close>: a scenario is image-packaged when its base image is a
  non-empty string.
\<close>

definition isImage :: "TestScenario \<Rightarrow> bool" where
  "isImage s = (case baseImage s of None \<Rightarrow> False | Some b \<Rightarrow> b \<noteq> [])"

section \<open>The integration test suite: harness\<close>

text \<open>
  The two debug tests of a scenario start with the guard
  \<^verbatim>\<open>if (vscode.version.startsWith('1.42') && scenario.language === 'python') this.skip()\<close>.
\<close>

definition skipped :: "string \<Rightarrow> TestScenario \<Rightarrow> bool" where
  "skipped version scenario = (prefix ''1.42'' version \<and> language scenario = ''python'')"

text \<open>
  The targets handed to \<^verbatim>\<open>testTarget\<close> by the tests of one scenario, in the order of the
  two \<^verbatim>\<open>it\<close> blocks, for the editor version the suite runs under.
\<close>

definition targetTests :: "string \<Rightarrow> TestScenario \<Rightarrow> string list" where
  "targetTests version scenario =
     (if skipped version scenario then [] else [''api'']) @
     (if skipped version scenario then [] else [''template''])"

text \<open>
  The loop \<^verbatim>\<open>for (scenarioIndex = 0; scenarioIndex < scenarios.length; scenarioIndex++)\<close>:
  every call of \<^verbatim>\<open>testTarget\<close> made by the suite, as pairs of scenario index and target.
\<close>

fun testTargetCallsFrom :: "string \<Rightarrow> nat \<Rightarrow> TestScenario list \<Rightarrow> (nat \<times> string) list" where
  "testTargetCallsFrom version scenarioIndex [] = []"
| "testTargetCallsFrom version scenarioIndex (scenario # rest) =
     map (\<lambda>target. (scenarioIndex, target)) (targetTests version scenario) @
     testTargetCallsFrom version (Suc scenarioIndex) rest"

definition testTargetCalls :: "string \<Rightarrow> (nat \<times> string) list" where
  "testTargetCalls version = testTargetCallsFrom version 0 scenarios"

text \<open>
  \<^verbatim>\<open>validateSamDebugSession\<close>. A debug session is its \<^verbatim>\<open>configuration\<close>, read as
  \<^verbatim>\<open>any\<close>: a property that is absent reads as \<^verbatim>\<open>undefined\<close>. \<^verbatim>\<open>JSON.stringify\<close> is
  the runtime's and is a parameter.
\<close>

record DebugSession =
  configuration :: "string \<Rightarrow> jsany"

definition validateSamDebugSession ::
  "(DebugSession \<Rightarrow> string) \<Rightarrow> DebugSession \<Rightarrow> string \<Rightarrow> string \<Rightarrow> string option" where
  \<open>validateSamDebugSession stringify debugSession expectedName expectedRuntime =
     (let runtime = configuration debugSession ''runtime'';
          name = configuration debugSession ''name''
      in if name \<noteq> JString expectedName \<or> runtime \<noteq> JString expectedRuntime
         then Some (''Unexpected DebugSession (expected name="'' @ expectedName @
                    ''" runtime="'' @ expectedRuntime @ ''"):'' @
                    [CHR 0x0A] @ stringify debugSession)
         else None)\<close>

section \<open>Paths\<close>

text \<open>
  \<^verbatim>\<open>path.join\<close> and \<^verbatim>\<open>path.dirname\<close> of the Node.js runtime, in their POSIX form: the
  separator is \<^verbatim>\<open>/\<close>. \<^verbatim>\<open>splitSlash\<close> cuts a string at every separator.
\<close>

fun splitSlash :: "string \<Rightarrow> string list" where
  "splitSlash [] = [[]]"
| "splitSlash (c # cs) =
     (if c = CHR ''/'' then [] # splitSlash cs
      else (case splitSlash cs of [] \<Rightarrow> [[c]] | s # ss \<Rightarrow> (c # s) # ss))"

fun joinWith :: "string \<Rightarrow> string list \<Rightarrow> string" where
  "joinWith sep [] = []"
| "joinWith sep [s] = s"
| "joinWith sep (s # t # ss) = s @ sep @ joinWith sep (t # ss)"

text \<open>
  The segment loop of \<^verbatim>\<open>normalizeString\<close>: empty and \<^verbatim>\<open>.\<close> segments are dropped, a
  \<^verbatim>\<open>..\<close> removes the segment before it, or is kept when there is none to remove and
  the path is relative. The accumulator holds the kept segments, last one first.
\<close>

fun normalizeSegments :: "bool \<Rightarrow> string list \<Rightarrow> string list \<Rightarrow> string list" where
  "normalizeSegments allowAboveRoot [] res = rev res"
| "normalizeSegments allowAboveRoot (s # ss) res =
     (if s = [] \<or> s = ''.'' then normalizeSegments allowAboveRoot ss res
      else if s = ''..'' then
        (case res of
           [] \<Rightarrow> normalizeSegments allowAboveRoot ss (if allowAboveRoot then [''..''] else [])
         | t # res' \<Rightarrow>
             if t = ''..''
             then normalizeSegments allowAboveRoot ss (if allowAboveRoot then ''..'' # res else res)
             else normalizeSegments allowAboveRoot ss res')
      else normalizeSegments allowAboveRoot ss (s # res))"

definition path_normalize :: "string \<Rightarrow> string" where
  "path_normalize p =
     (if p = [] then ''.''
      else
        let isAbsolute = (hd p = CHR ''/'');
            trailingSeparator = (last p = CHR ''/'');
            q = joinWith ''/'' (normalizeSegments (\<not> isAbsolute) (splitSlash p) [])
        in if q = [] then (if isAbsolute then ''/'' else if trailingSeparator then ''./'' else ''.'')
           else (if isAbsolute then ''/'' else []) @ q @ (if trailingSeparator then ''/'' else []))"

definition path_join :: "string list \<Rightarrow> string" where
  "path_join args =
     (let joined = filter (\<lambda>arg. arg \<noteq> []) args
      in if joined = [] then ''.'' else path_normalize (joinWith ''/'' joined))"

text \<open>
  \<^verbatim>\<open>path.dirname\<close>: scanning from the end down to index 1, trailing separators are
  skipped, then the last segment, and the path is cut at the separator before it.
\<close>

definition path_dirname :: "string \<Rightarrow> string" where
  "path_dirname p =
     (case p of
        [] \<Rightarrow> ''.''
      | c # cs \<Rightarrow>
          let hasRoot = (c = CHR ''/'');
              afterName = dropWhile (\<lambda>x. x \<noteq> CHR ''/'')
                            (dropWhile (\<lambda>x. x = CHR ''/'') (rev cs))
          in (case afterName of
                [] \<Rightarrow> if hasRoot then ''/'' else ''.''
              | _ # front \<Rightarrow> if hasRoot \<and> front = [] then ''//'' else c # rev front))"

text \<open>
  A path as the list of its non-empty segments, and back as an absolute path. A plain
  segment is a name: not empty, without a separator, and neither \<^verbatim>\<open>.\<close> nor \<^verbatim>\<open>..\<close>.
\<close>

definition pathSegments :: "string \<Rightarrow> string list" where
  "pathSegments p = filter (\<lambda>s. s \<noteq> []) (splitSlash p)"

definition renderPath :: "string list \<Rightarrow> string" where
  "renderPath segs = (if segs = [] then ''/'' else concat (map (\<lambda>s. CHR ''/'' # s) segs))"

definition plainSegment :: "string \<Rightarrow> bool" where
  "plainSegment s \<longleftrightarrow> s \<noteq> [] \<and> CHR ''/'' \<notin> set s \<and> s \<noteq> ''.'' \<and> s \<noteq> ''..''"

section \<open>File system and host\<close>

text \<open>
  What a path names, as \<^verbatim>\<open>statSync\<close> and \<^verbatim>\<open>readdirSync\<close> see it: a file; a directory
  with its entries in the order they are listed; an entry whose \<^verbatim>\<open>statSync\<close> throws (a
  link to nothing, a link that loops); a directory whose \<^verbatim>\<open>readdirSync\<close> throws (no
  permission to list it). The tree is finite: a traversal that follows links forever
  ends in the error the system raises.
\<close>

datatype fsnode = File | Dir "(string \<times> fsnode) list" | NoStat error | NoList error

text \<open>Every entry below a directory that can be listed, at any depth.\<close>

fun entriesBelow :: "(string \<times> fsnode) list \<Rightarrow> (string \<times> fsnode) list" where
  "entriesBelow [] = []"
| "entriesBelow ((file, node) # files) =
     (file, node) # (case node of Dir sub \<Rightarrow> entriesBelow sub | _ \<Rightarrow> []) @ entriesBelow files"

text \<open>A tree in which every \<^verbatim>\<open>statSync\<close> and every \<^verbatim>\<open>readdirSync\<close> succeeds.\<close>

definition readableTree :: "(string \<times> fsnode) list \<Rightarrow> bool" where
  "readableTree files \<longleftrightarrow>
     (\<forall>entry \<in> set (entriesBelow files).
        case snd entry of NoStat e \<Rightarrow> False | NoList e \<Rightarrow> False | _ \<Rightarrow> True)"

text \<open>\<^verbatim>\<open>readdirSync(path)\<close> and \<^verbatim>\<open>statSync(path).isDirectory()\<close> on what the path names.\<close>

definition readdirSync :: "fsnode \<Rightarrow> error + (string \<times> fsnode) list" where
  "readdirSync node =
     (case node of
        Dir files \<Rightarrow> Inr files
      | File \<Rightarrow> Inl (SystemError ''ENOTDIR: not a directory, scandir'')
      | NoStat e \<Rightarrow> Inl e
      | NoList e \<Rightarrow> Inl e)"

definition statSync_isDirectory :: "fsnode \<Rightarrow> error + bool" where
  "statSync_isDirectory node =
     (case node of
        Dir files \<Rightarrow> Inr True
      | NoList e \<Rightarrow> Inr True
      | File \<Rightarrow> Inr False
      | NoStat e \<Rightarrow> Inl e)"

text \<open>
  The calls the code makes to the outside, recorded in order: a call is recorded whether
  or not it succeeds.
\<close>

datatype event =
    WriteFileSync string string
  | ChildProcessRun string
  | LogInfo string
  | LogWarn string
  | LogError string
  | FindParentProjectFile string
  | MakeInputTemplate

text \<open>
  The host a compile step runs on: what each path names, and whether a write or a
  subprocess fails (\<^verbatim>\<open>writeFileSync\<close> throws, the promise of \<^verbatim>\<open>ChildProcess.run\<close> rejects).
\<close>

record Host =
  fileSystem :: "string \<Rightarrow> fsnode option"
  writeFileSync :: "string \<Rightarrow> string \<Rightarrow> error option"
  childProcessRun :: "string \<Rightarrow> error option"

text \<open>
  The node a path names on the host, and \<^verbatim>\<open>readdir(path)\<close>: the entries of a directory;
  it fails on anything else.
\<close>

definition nodeAt :: "Host \<Rightarrow> string option \<Rightarrow> error + fsnode" where
  \<open>nodeAt host p =
     (case p of
        None \<Rightarrow> Inl (TypeError ''The "path" argument must be of type string. Received undefined'')
      | Some dir \<Rightarrow>
          (case fileSystem host dir of
             None \<Rightarrow> Inl (SystemError (''ENOENT: no such file or directory, scandir '' @ dir))
           | Some node \<Rightarrow> Inr node))\<close>

definition readdir :: "Host \<Rightarrow> string option \<Rightarrow> error + (string \<times> fsnode) list" where
  "readdir host p =
     (case nodeAt host p of
        Inl e \<Rightarrow> Inl e
      | Inr node \<Rightarrow> readdirSync node)"

section \<open>Launch configurations\<close>

text \<open>
  \<^verbatim>\<open>vscode.Uri\<close>, as far as the helper uses it: the components of a URI, \<^verbatim>\<open>Uri.parse\<close>
  with its percent-decoding and its validation, \<^verbatim>\<open>Uri.file\<close> and \<^verbatim>\<open>fsPath\<close> (in the form
  it has where the separator is \<^verbatim>\<open>/\<close>). Characters are bytes, so a decoded escape
  sequence is kept as the bytes of its UTF-8 form.
\<close>

definition isDigit :: "char \<Rightarrow> bool" where
  "isDigit c \<longleftrightarrow> 48 \<le> (of_char c :: nat) \<and> (of_char c :: nat) \<le> 57"

definition isLetter :: "char \<Rightarrow> bool" where
  "isLetter c \<longleftrightarrow>
     (65 \<le> (of_char c :: nat) \<and> (of_char c :: nat) \<le> 90) \<or>
     (97 \<le> (of_char c :: nat) \<and> (of_char c :: nat) \<le> 122)"

definition isWordChar :: "char \<Rightarrow> bool" where
  "isWordChar c \<longleftrightarrow> isLetter c \<or> isDigit c \<or> c = CHR ''_''"

definition toLowerCase :: "char \<Rightarrow> char" where
  "toLowerCase c =
     (if 65 \<le> (of_char c :: nat) \<and> (of_char c :: nat) \<le> 90
      then char_of ((of_char c :: nat) + 32) else c)"

definition hexValue :: "char \<Rightarrow> nat option" where
  "hexValue c =
     (let n = (of_char c :: nat)
      in if 48 \<le> n \<and> n \<le> 57 then Some (n - 48)
         else if 65 \<le> n \<and> n \<le> 70 then Some (n - 55)
         else if 97 \<le> n \<and> n \<le> 102 then Some (n - 87)
         else None)"

text \<open>
  \<^verbatim>\<open>decodeURIComponent\<close> on a run of escapes \<^verbatim>\<open>%xy\<close>: it throws unless every escape is two
  hexadecimal digits and the bytes are well-formed UTF-8.
\<close>

definition continuation :: "nat \<Rightarrow> bool" where
  "continuation b \<longleftrightarrow> 128 \<le> b \<and> b \<le> 191"

fun utf8WellFormed :: "nat list \<Rightarrow> bool" where
  "utf8WellFormed [] = True"
| "utf8WellFormed (b # bs) =
     (if b < 128 then utf8WellFormed bs
      else if 194 \<le> b \<and> b \<le> 223 then
        (case bs of
           c1 # rest \<Rightarrow> continuation c1 \<and> utf8WellFormed rest
         | _ \<Rightarrow> False)
      else if 224 \<le> b \<and> b \<le> 239 then
        (case bs of
           c1 # c2 # rest \<Rightarrow>
             (if b = 224 then 160 \<le> c1 \<and> c1 \<le> 191
              else if b = 237 then 128 \<le> c1 \<and> c1 \<le> 159
              else continuation c1) \<and>
             continuation c2 \<and> utf8WellFormed rest
         | _ \<Rightarrow> False)
      else if 240 \<le> b \<and> b \<le> 244 then
        (case bs of
           c1 # c2 # c3 # rest \<Rightarrow>
             (if b = 240 then 144 \<le> c1 \<and> c1 \<le> 191
              else if b = 244 then 128 \<le> c1 \<and> c1 \<le> 143
              else continuation c1) \<and>
             continuation c2 \<and> continuation c3 \<and> utf8WellFormed rest
         | _ \<Rightarrow> False)
      else False)"

fun escapeBytes :: "(char \<times> char) list \<Rightarrow> nat list option" where
  "escapeBytes [] = Some []"
| "escapeBytes ((a, b) # es) =
     (case (hexValue a, hexValue b, escapeBytes es) of
        (Some h, Some l, Some bs) \<Rightarrow> Some ((16 * h + l) # bs)
      | _ \<Rightarrow> None)"

definition decodeURIComponent :: "(char \<times> char) list \<Rightarrow> string option" where
  "decodeURIComponent es =
     (case escapeBytes es of
        None \<Rightarrow> None
      | Some bs \<Rightarrow> if utf8WellFormed bs then Some (map char_of bs) else None)"

text \<open>
  \<^verbatim>\<open>decodeURIComponentGraceful\<close>: when the run does not decode, its first escape is kept
  as it is and the rest is tried again.
\<close>

fun decodeURIComponentGraceful :: "(char \<times> char) list \<Rightarrow> string" where
  "decodeURIComponentGraceful [] = []"
| "decodeURIComponentGraceful ((a, b) # es) =
     (case decodeURIComponent ((a, b) # es) of
        Some s \<Rightarrow> s
      | None \<Rightarrow> [CHR ''%'', a, b] @ decodeURIComponentGraceful es)"

text \<open>
  \<^verbatim>\<open>percentDecode\<close>: every maximal run of \<^verbatim>\<open>%\<close> followed by two letters or digits is
  replaced by its graceful decoding. The first argument is the run read so far.
\<close>

fun percentDecodeFrom :: "(char \<times> char) list \<Rightarrow> string \<Rightarrow> string" where
  "percentDecodeFrom run (c # a # b # rest) =
     (if c = CHR ''%'' \<and> (isLetter a \<or> isDigit a) \<and> (isLetter b \<or> isDigit b)
      then percentDecodeFrom (run @ [(a, b)]) rest
      else decodeURIComponentGraceful run @ c # percentDecodeFrom [] (a # b # rest))"
| "percentDecodeFrom run (c # rest) =
     decodeURIComponentGraceful run @ c # percentDecodeFrom [] rest"
| "percentDecodeFrom run [] = decodeURIComponentGraceful run"

definition percentDecode :: "string \<Rightarrow> string" where
  "percentDecode str = percentDecodeFrom [] str"

text \<open>
  \<^verbatim>\<open>Uri.parse(value)\<close>, not strict: the string is cut into scheme, authority, path, query
  and fragment as the regular expression
  \<^verbatim>\<open>^(([^:/?#]+?):)?(\/\/([^/?#]*))?([^?#]*)(\?([^#]*))?(#(.*))?\<close> does, a missing scheme is
  \<^verbatim>\<open>file\<close>, the components are percent-decoded, and the result is validated.
\<close>

datatype Uri = Uri (scheme: string) (authority: string) (uriPath: string) (query: string) (fragment: string)

definition schemePattern :: "string \<Rightarrow> bool" where
  "schemePattern s =
     (case s of
        [] \<Rightarrow> False
      | c # cs \<Rightarrow> isWordChar c \<and>
          (\<forall>x \<in> set cs. isWordChar x \<or> x = CHR ''+'' \<or> x = CHR ''.'' \<or> x = CHR ''-''))"

definition referenceResolution :: "string \<Rightarrow> string \<Rightarrow> string" where
  "referenceResolution sch p =
     (if sch = ''https'' \<or> sch = ''http'' \<or> sch = ''file''
      then (case p of [] \<Rightarrow> ''/'' | c # cs \<Rightarrow> if c \<noteq> CHR ''/'' then CHR ''/'' # p else p)
      else p)"

definition Uri_parse :: "string \<Rightarrow> error + Uri" where
  \<open>Uri_parse value =
     (let name = takeWhile (\<lambda>c. c \<notin> set '':/?#'') value;
          afterName = dropWhile (\<lambda>c. c \<notin> set '':/?#'') value;
          hasScheme = (name \<noteq> [] \<and> take 1 afterName = '':'');
          sch = (if hasScheme then name else []);
          r1 = (if hasScheme then drop 1 afterName else value);
          hasAuthority = (take 2 r1 = ''//'');
          auth = (if hasAuthority then takeWhile (\<lambda>c. c \<notin> set ''/?#'') (drop 2 r1) else []);
          r2 = (if hasAuthority then dropWhile (\<lambda>c. c \<notin> set ''/?#'') (drop 2 r1) else r1);
          p = takeWhile (\<lambda>c. c \<notin> set ''?#'') r2;
          r3 = dropWhile (\<lambda>c. c \<notin> set ''?#'') r2;
          q = (if take 1 r3 = ''?'' then takeWhile (\<lambda>c. c \<noteq> CHR ''#'') (drop 1 r3) else []);
          r4 = (if take 1 r3 = ''?'' then dropWhile (\<lambda>c. c \<noteq> CHR ''#'') (drop 1 r3) else r3);
          f = (if take 1 r4 = ''#''
               then takeWhile (\<lambda>c. c \<noteq> CHR 0x0A \<and> c \<noteq> CHR 0x0D) (drop 1 r4) else []);
          sch' = (if sch = [] then ''file'' else sch);
          auth' = percentDecode auth;
          p' = referenceResolution sch' (percentDecode p)
      in if \<not> schemePattern sch'
         then Inl (Error ''[UriError]: Scheme contains illegal characters.'')
         else if p' \<noteq> [] \<and> auth' \<noteq> [] \<and> take 1 p' \<noteq> ''/''
         then Inl (Error (''[UriError]: If a URI contains an authority component, then the path '' @
                          ''component must either be empty or begin with a slash ("/") character''))
         else if p' \<noteq> [] \<and> auth' = [] \<and> take 2 p' = ''//''
         then Inl (Error (''[UriError]: If a URI does not contain an authority component, then the '' @
                          ''path cannot begin with two slash characters ("//")''))
         else Inr (Uri sch' auth' p' (percentDecode q) (percentDecode f)))\<close>

definition fsPath :: "Uri \<Rightarrow> string" where
  "fsPath uri =
     (if authority uri \<noteq> [] \<and> length (uriPath uri) > 1 \<and> scheme uri = ''file''
      then ''//'' @ authority uri @ uriPath uri
      else (case uriPath uri of
              c0 # c1 # c2 # rest \<Rightarrow>
                if c0 = CHR ''/'' \<and> isLetter c1 \<and> c2 = CHR '':''
                then toLowerCase c1 # c2 # rest
                else uriPath uri
            | _ \<Rightarrow> uriPath uri))"

text \<open>\<^verbatim>\<open>Uri.file(path)\<close> on an absolute path.\<close>

definition Uri_file :: "string \<Rightarrow> Uri" where
  "Uri_file p = Uri ''file'' [] p [] []"



text \<open>
  The enum is declared outside the excerpt; \<^verbatim>\<open>NodeJS\<close> is the member the code names.
\<close>

datatype RuntimeFamily = Unknown | Python | NodeJS | DotNetCore

record PathMapping =
  localRoot :: string
  remoteRoot :: string

record Lambda =
  pathMappings :: "PathMapping list option"

record InvokeTarget =
  target :: string

text \<open>
  The fields of the launch request that the debugger helper reads or writes. Optional
  fields are options; \<^verbatim>\<open>stopOnEntry\<close> is an untyped property of the debug configuration.
\<close>

record SamLaunchRequestArgs =
  invokeTarget :: InvokeTarget
  lambda :: "Lambda option"
  noDebug :: "bool option"
  stopOnEntry :: jsany
  baseBuildDir :: "string option"
  codeRoot :: "string option"
  templatePath :: "string option"
  documentUri :: "Uri option"
  debugPort :: "int option"
  containerEnvVars :: "(string \<times> string) list option"

record NodejsDebugConfiguration = SamLaunchRequestArgs +
  type :: string
  request :: string
  runtimeFamily :: RuntimeFamily
  preLaunchTask :: "string option"
  address :: string
  port :: int
  localRoot :: string
  remoteRoot :: string
  protocol :: string
  skipFiles :: "string list"

text \<open>An optional string is falsy when it is \<^verbatim>\<open>undefined\<close> or empty.\<close>

definition unset :: "string option \<Rightarrow> bool" where
  "unset v = (case v of None \<Rightarrow> True | Some s \<Rightarrow> s = [])"

text \<open>A number in a template literal.\<close>

fun showNat :: "nat \<Rightarrow> string" where
  "showNat n =
     (if n < 10 then [char_of (48 + n)]
      else showNat (n div 10) @ [char_of (48 + n mod 10)])"

definition showInt :: "int \<Rightarrow> string" where
  "showInt i = (if i < 0 then ''-'' @ showNat (nat (- i)) else showNat (nat i))"

definition showOptInt :: "int option \<Rightarrow> string" where
  "showOptInt v = (case v of None \<Rightarrow> ''undefined'' | Some i \<Rightarrow> showInt i)"

text \<open>
  The helpers \<^verbatim>\<open>makeTypescriptConfig\<close> calls that are declared outside the excerpt:
  \<^verbatim>\<open>pathutil.normalize\<close>, \<^verbatim>\<open>findParentProjectFile\<close>, \<^verbatim>\<open>makeInputTemplate\<close> (awaited, so
  it may reject) and \<^verbatim>\<open>isImageLambdaConfig\<close>.
\<close>

record Deps =
  normalize :: "string \<Rightarrow> string"
  findProjectFile :: "Uri \<Rightarrow> (string \<Rightarrow> bool) \<Rightarrow> Uri option"
  makeInputTemplate :: "SamLaunchRequestArgs \<Rightarrow> error + string"
  isImageLambdaConfig :: "SamLaunchRequestArgs \<Rightarrow> bool"

section \<open>The TypeScript debugger helper\<close>

text \<open>The regular expression \<^verbatim>\<open>/^package\.json$/\<close> as a predicate on file names.\<close>

definition isPackageJson :: "string \<Rightarrow> bool" where
  "isPackageJson file = (file = ''package.json'')"

text \<open>\<^verbatim>\<open>getSamProjectDirPathForFile\<close>, over the project-file search it is given.\<close>

definition getSamProjectDirPathForFile ::
  "(Uri \<Rightarrow> (string \<Rightarrow> bool) \<Rightarrow> Uri option) \<Rightarrow> string \<Rightarrow> error + string" where
  "getSamProjectDirPathForFile findParent filepath =
     (case Uri_parse filepath of
        Inl e \<Rightarrow> Inl e
      | Inr uri \<Rightarrow>
          (case findParent uri isPackageJson of
             None \<Rightarrow> Inl (Error (''Cannot find package.json for: '' @ filepath))
           | Some packageJsonPath \<Rightarrow> Inr (path_dirname (fsPath packageJsonPath))))"

text \<open>
  The first block of \<^verbatim>\<open>makeTypescriptConfig\<close>, entered when \<^verbatim>\<open>config.codeRoot\<close> is
  unset: the project root is searched for from
  \<^verbatim>\<open>config.templatePath ?? config.documentUri.fsPath\<close>. The result is the outcome (the
  code root found), the configuration as the block leaves it, and the calls made.
\<close>

definition searchProjectRoot ::
  "Deps \<Rightarrow> SamLaunchRequestArgs \<Rightarrow> (error + string) \<times> SamLaunchRequestArgs \<times> event list" where
  "searchProjectRoot deps config =
     (case (case templatePath config of
              Some t \<Rightarrow> Inr t
            | None \<Rightarrow>
                (case documentUri config of
                   Some u \<Rightarrow> Inr (fsPath u)
                 | None \<Rightarrow> Inl (TypeError ''Cannot read property fsPath of undefined''))) of
        Inl e \<Rightarrow> (Inl e, config, [])
      | Inr filepath \<Rightarrow>
          (case getSamProjectDirPathForFile (findProjectFile deps) filepath of
             Inl e \<Rightarrow> (Inl e, config, [FindParentProjectFile filepath])
           | Inr dir \<Rightarrow>
               let root = normalize deps dir;
                   config1 = config\<lparr>codeRoot := Some root\<rparr>
               in if root = []
                  then (Inl (Error ''missing launch.json, template.yaml, and failed to discover project root''),
                        config1, [FindParentProjectFile filepath])
                  else (Inr root, config1, [FindParentProjectFile filepath])))"

definition discoverCodeRoot ::
  "Deps \<Rightarrow> SamLaunchRequestArgs \<Rightarrow> (error + string) \<times> SamLaunchRequestArgs \<times> event list" where
  "discoverCodeRoot deps config =
     (case codeRoot config of
        None \<Rightarrow> searchProjectRoot deps config
      | Some r \<Rightarrow> if r = [] then searchProjectRoot deps config else (Inr r, config, []))"

text \<open>
  The path mapping in use: the first entry of \<^verbatim>\<open>config.lambda.pathMappings\<close> when the
  list is defined and not empty, with the warning logged when it has more than one
  entry.
\<close>

definition userMapping :: "SamLaunchRequestArgs \<Rightarrow> PathMapping option \<times> event list" where
  "userMapping config =
     (case lambda config of
        None \<Rightarrow> (None, [])
      | Some l \<Rightarrow>
          (case pathMappings l of
             None \<Rightarrow> (None, [])
           | Some [] \<Rightarrow> (None, [])
           | Some (m # ms) \<Rightarrow>
               (Some m,
                if length (m # ms) \<noteq> 1
                then [LogWarn ''This language only supports a single path mapping entry. Taking the first entry in the list.'']
                else [])))"

text \<open>
  \<^verbatim>\<open>makeTypescriptConfig\<close>. The result is the outcome (the launch configuration, or the
  value thrown), the input configuration as the call leaves it (the function assigns
  to its argument), and the calls made.
\<close>

definition makeTypescriptConfig ::
  "Deps \<Rightarrow> SamLaunchRequestArgs \<Rightarrow>
     (error + NodejsDebugConfiguration) \<times> SamLaunchRequestArgs \<times> event list" where
  "makeTypescriptConfig deps config =
     (if unset (baseBuildDir config)
      then (Inl (Error ''invalid state: config.baseBuildDir was not set''), config, [])
      else
        (case discoverCodeRoot deps config of
           (Inl e, config1, events1) \<Rightarrow> (Inl e, config1, events1)
         | (Inr root, config1, events1) \<Rightarrow>
             let root2 = normalize deps root;
                 config2 = config1\<lparr>codeRoot := Some root2\<rparr>
             in (case makeInputTemplate deps config2 of
                   Inl e \<Rightarrow> (Inl e, config2, events1 @ [MakeInputTemplate])
                 | Inr template \<Rightarrow>
                     let config3 = config2\<lparr>templatePath := Some template\<rparr>;
                         isImageLambda = isImageLambdaConfig deps config3;
                         config4 =
                           (if isImageLambda \<and> noDebug config3 \<noteq> Some True
                            then config3\<lparr>containerEnvVars :=
                                   Some [(''NODE_OPTIONS'',
                                          ''--inspect-brk=0.0.0.0:'' @ showOptInt (debugPort config3) @
                                          '' --max-http-header-size 81920'')]\<rparr>
                            else config3);
                         (mapping, events2) = userMapping config4;
                         nodejsLaunchConfig =
                           (SamLaunchRequestArgs.extend config4
                              (NodejsDebugConfiguration.fields
                                 ''node''
                                 (if noDebug config4 = Some True then ''launch'' else ''attach'')
                                 NodeJS
                                 None
                                 ''localhost''
                                 (case debugPort config4 of None \<Rightarrow> - 1 | Some p \<Rightarrow> p)
                                 (case mapping of None \<Rightarrow> root2 | Some m \<Rightarrow> PathMapping.localRoot m)
                                 (case mapping of None \<Rightarrow> ''/var/task'' | Some m \<Rightarrow> PathMapping.remoteRoot m)
                                 ''inspector''
                                 [''/var/runtime/node_modules/**/*.js'', ''<node_internals>/**/*.js'']))
                           \<lparr>stopOnEntry :=
                              (if stopOnEntry config4 = JUndefined then JBool False
                               else JBool (truthy (stopOnEntry config4)))\<rparr>
                     in (Inr nodejsLaunchConfig, config4, events1 @ [MakeInputTemplate] @ events2))))"

text \<open>
  \<^verbatim>\<open>hasTypeScriptFilesRecursive\<close>, on what the directory path names. \<^verbatim>\<open>readdirSync(dir)\<close>
  gives the entries or throws; the loop tests the name of each entry first
  (\<^verbatim>\<open>file.substr(-3)\<close> is the last three characters, or the whole name when it is
  shorter), then calls \<^verbatim>\<open>statSync\<close> on the entry, which may throw, and descends into a
  directory. Nothing is caught, so the first failure ends the search.
\<close>

fun hasTypeScriptFilesRecursive :: "fsnode \<Rightarrow> error + bool"
  and hasTypeScriptFilesLoop :: "(string \<times> fsnode) list \<Rightarrow> error + bool" where
  "hasTypeScriptFilesRecursive (Dir files) = hasTypeScriptFilesLoop files"
| "hasTypeScriptFilesRecursive File = Inl (SystemError ''ENOTDIR: not a directory, scandir'')"
| "hasTypeScriptFilesRecursive (NoStat e) = Inl e"
| "hasTypeScriptFilesRecursive (NoList e) = Inl e"
| "hasTypeScriptFilesLoop [] = Inr False"
| "hasTypeScriptFilesLoop ((file, node) # files) =
     (if drop (length file - 3) file = ''.ts'' then Inr True
      else (case statSync_isDirectory node of
              Inl e \<Rightarrow> Inl e
            | Inr False \<Rightarrow> hasTypeScriptFilesLoop files
            | Inr True \<Rightarrow>
                (case hasTypeScriptFilesRecursive node of
                   Inl e \<Rightarrow> Inl e
                 | Inr True \<Rightarrow> Inr True
                 | Inr False \<Rightarrow> hasTypeScriptFilesLoop files)))"

text \<open>\<^verbatim>\<open>JSON.stringify(defaultTsconfig)\<close>.\<close>

definition defaultTsconfig :: string where
  \<open>defaultTsconfig =
     ''{"compilerOptions":{"target":"es6","module":"commonjs","typeRoots":["node_modules/@types"],"types":["node"],"rootDir":".","sourceMap":true}}''\<close>

text \<open>
  The body of the \<^verbatim>\<open>if\<close> in \<^verbatim>\<open>compileTypeScript\<close>: the default \<^verbatim>\<open>tsconfig.json\<close> is
  written and \<^verbatim>\<open>tsc\<close> is run, both inside the \<^verbatim>\<open>try\<close>.
\<close>

definition compileStep ::
  "Host \<Rightarrow> NodejsDebugConfiguration \<Rightarrow> string \<Rightarrow> string \<Rightarrow>
     (error + unit) \<times> NodejsDebugConfiguration \<times> event list" where
  "compileStep host config samBuildOutputAppRoot tsconfigPath =
     (let compileCommand = [''tsc'', ''--project'', samBuildOutputAppRoot]
      in (case writeFileSync host tsconfigPath defaultTsconfig of
            Some error \<Rightarrow>
              (Inl (Error ''Failed to compile typescript Lambda''), config,
               [WriteFileSync tsconfigPath defaultTsconfig,
                LogError (''Compile Error: '' @ errorToString error)])
          | None \<Rightarrow>
              (case childProcessRun host (joinWith '' '' compileCommand) of
                 Some error \<Rightarrow>
                   (Inl (Error ''Failed to compile typescript Lambda''), config,
                    [WriteFileSync tsconfigPath defaultTsconfig,
                     LogInfo ''Compiling TypeScript'',
                     ChildProcessRun (joinWith '' '' compileCommand),
                     LogError (''Compile Error: '' @ errorToString error)])
               | None \<Rightarrow>
                   (Inr (), config,
                    [WriteFileSync tsconfigPath defaultTsconfig,
                     LogInfo ''Compiling TypeScript'',
                     ChildProcessRun (joinWith '' '' compileCommand)]))))"

text \<open>
  \<^verbatim>\<open>compileTypeScript\<close>. The result is the outcome, the configuration as the call
  leaves it, and the calls made. \<^verbatim>\<open>config.baseBuildDir!\<close> is handed to \<^verbatim>\<open>path.join\<close>,
  which throws on \<^verbatim>\<open>undefined\<close>. The condition of the \<^verbatim>\<open>if\<close> is outside the \<^verbatim>\<open>try\<close>:
  a failing \<^verbatim>\<open>readdir\<close>, and a failure inside \<^verbatim>\<open>hasTypeScriptFilesRecursive\<close> when
  \<^verbatim>\<open>tsconfig.json\<close> is not listed, end the call with that error.
\<close>

definition compileTypeScript ::
  "Host \<Rightarrow> NodejsDebugConfiguration \<Rightarrow> (error + unit) \<times> NodejsDebugConfiguration \<times> event list" where
  \<open>compileTypeScript host config =
     (if target (invokeTarget config) = ''code'' then
        (case baseBuildDir config of
           None \<Rightarrow>
             (Inl (TypeError ''The "path" argument must be of type string. Received undefined''),
              config, [])
         | Some buildDir \<Rightarrow>
             let samBuildOutputAppRoot = path_join [buildDir, ''output'', ''awsToolkitSamLocalResource''];
                 tsconfigPath = path_join [samBuildOutputAppRoot, ''tsconfig.json'']
             in (case readdir host (codeRoot config) of
                   Inl e \<Rightarrow> (Inl e, config, [])
                 | Inr files \<Rightarrow>
                     if ''tsconfig.json'' \<in> set (map fst files)
                     then compileStep host config samBuildOutputAppRoot tsconfigPath
                     else
                       (case nodeAt host (codeRoot config) of
                          Inl e \<Rightarrow> (Inl e, config, [])
                        | Inr node \<Rightarrow>
                            (case hasTypeScriptFilesRecursive node of
                               Inl e \<Rightarrow> (Inl e, config, [])
                             | Inr True \<Rightarrow> compileStep host config samBuildOutputAppRoot tsconfigPath
                             | Inr False \<Rightarrow> (Inr (), config, [])))))
      else (Inr (), config, []))\<close>

section \<open>The project-file search\<close>

text \<open>
  The files of a workspace: for each directory, given by its segments, the names of the
  files directly in it.
\<close>

type_synonym Workspace = "string list \<Rightarrow> string list"


text \<open>
  A search that meets the condition, for use in examples: it starts in the directory of
  the source file and moves up one directory at a time; the directory is handed over
  with its last segment first.
\<close>

fun findUpward :: "Workspace \<Rightarrow> (string \<Rightarrow> bool) \<Rightarrow> string list \<Rightarrow> string list option" where
  "findUpward ws projectFile [] =
     (case find projectFile (ws []) of
        Some file \<Rightarrow> Some [file]
      | None \<Rightarrow> None)"
| "findUpward ws projectFile (d # up) =
     (case find projectFile (ws (rev (d # up))) of
        Some file \<Rightarrow> Some (rev (d # up) @ [file])
      | None \<Rightarrow> findUpward ws projectFile up)"

definition upwardSearch :: "Workspace \<Rightarrow> Uri \<Rightarrow> (string \<Rightarrow> bool) \<Rightarrow> Uri option" where
  "upwardSearch ws sourceCodeUri projectFile =
     (case findUpward ws projectFile (rev (butlast (pathSegments (fsPath sourceCodeUri)))) of
        None \<Rightarrow> None
      | Some file \<Rightarrow> Some (Uri_file (renderPath file)))"

section \<open>Sample inputs\<close>

definition sampleArgs :: SamLaunchRequestArgs where
  "sampleArgs =
     \<lparr>invokeTarget = \<lparr>target = ''code''\<rparr>, lambda = None, noDebug = None,
      stopOnEntry = JUndefined, baseBuildDir = Some ''/tmp/build'', codeRoot = Some ''/ws/app'',
      templatePath = None, documentUri = Some (Uri_file ''/ws/app/src/app.js''),
      debugPort = Some 5858, containerEnvVars = None\<rparr>"

definition sampleWorkspace :: Workspace where
  "sampleWorkspace dir =
     (if dir = [''ws'', ''app''] \<or> dir = [] then [''package.json'', ''README.md''] else [])"

definition sampleDeps :: Deps where
  "sampleDeps =
     \<lparr>normalize = path_normalize,
      findProjectFile = upwardSearch sampleWorkspace,
      makeInputTemplate = (\<lambda>config. Inr ''/tmp/build/input/input-template.yaml''),
      isImageLambdaConfig = (\<lambda>config. False)\<rparr>"

definition sampleMappings :: "PathMapping list" where
  "sampleMappings =
     [\<lparr>PathMapping.localRoot = ''/ws/app/src'', PathMapping.remoteRoot = ''/var/task/src''\<rparr>,
      \<lparr>PathMapping.localRoot = ''/ws/other'', PathMapping.remoteRoot = ''/var/other''\<rparr>]"

definition sampleLaunchConfig :: NodejsDebugConfiguration where
  "sampleLaunchConfig =
     SamLaunchRequestArgs.extend sampleArgs
       (NodejsDebugConfiguration.fields ''node'' ''attach'' NodeJS None ''localhost'' 5858
          ''/ws/app'' ''/var/task'' ''inspector''
          [''/var/runtime/node_modules/**/*.js'', ''<node_internals>/**/*.js''])"


definition sampleHost :: "(string \<times> fsnode) list \<Rightarrow> Host" where
  "sampleHost files =
     \<lparr>fileSystem = (\<lambda>p. if p = ''/ws/app'' then Some (Dir files) else None),
      writeFileSync = (\<lambda>p content. None),
      childProcessRun = (\<lambda>command. None)\<rparr>"

section \<open>Properties of the scenario matrix and the harness\<close>

lemma testTargetCallsFrom_iff:
  "(i, t) \<in> set (testTargetCallsFrom version k xs) \<longleftrightarrow>
     k \<le> i \<and> i - k < length xs \<and> t \<in> set (targetTests version (xs ! (i - k)))"
proof (induction xs arbitrary: k)
  case Nil
  show ?case by simp
next
  case (Cons x xs)
  have step: "(i, t) \<in> set (testTargetCallsFrom version (Suc k) xs) \<longleftrightarrow>
     Suc k \<le> i \<and> i - Suc k < length xs \<and> t \<in> set (targetTests version (xs ! (i - Suc k)))"
    by (rule Cons.IH)
  show ?case
  proof (cases "k < i")
    case True
    then have "(x # xs) ! (i - k) = xs ! (i - Suc k)" by (simp add: nth_Cons')
    with True show ?thesis unfolding testTargetCallsFrom.simps set_append Un_iff step
      by auto
  next
    case False
    then show ?thesis unfolding testTargetCallsFrom.simps set_append Un_iff step
      by auto
  qed
qed

lemma testTargetCalls_iff:
  "(i, t) \<in> set (testTargetCalls version) \<longleftrightarrow>
     i < length scenarios \<and> t \<in> set (targetTests version (scenarios ! i))"
  by (simp add: testTargetCalls_def testTargetCallsFrom_iff)

lemma targetTests_set:
  "set (targetTests version s) = (if skipped version s then {} else {''api'', ''template''})"
  by (auto simp: targetTests_def)

lemma scenarios_languages:
  "language ` set scenarios = {''javascript'', ''python'', ''java''}"
  by (auto simp: scenarios_def)

lemma scenarios_runtimes:
  "runtime ` set scenarios =
     {''nodejs10.x'', ''nodejs12.x'', ''nodejs14.x'', ''python2.7'', ''python3.6'',
      ''python3.7'', ''python3.8'', ''java8'', ''java8.al2'', ''java11''}"
  by (auto simp: scenarios_def)

lemma scenarios_packaging:
  "\<forall>l \<in> {''javascript'', ''python'', ''java''}.
     (\<exists>s \<in> set scenarios. language s = l \<and> baseImage s = None) \<and>
     (\<exists>s \<in> set scenarios. language s = l \<and> isImage s)"
  by (simp add: scenarios_def isImage_def)

text \<open>
  C5, as the claim states it, fails: under an editor whose version starts with
  \<^verbatim>\<open>1.42\<close> both debug tests of a python scenario call \<^verbatim>\<open>this.skip()\<close> before
  \<^verbatim>\<open>testTarget\<close>. The scenario at index 3, \<^verbatim>\<open>python2.7 (ZIP)\<close>, is then not exercised
  for the target \<^verbatim>\<open>api\<close>.
\<close>

theorem python_scenario_skipped_counterexample:
  "3 < length scenarios \<and> language (scenarios ! 3) = ''python'' \<and>
   (3, ''api'') \<notin> set (testTargetCalls ''1.42.0'')"
  by (simp add: testTargetCalls_iff targetTests_set skipped_def scenarios_def)

text \<open>
  C5, amended: the matrix holds scenarios for each of the languages javascript, python
  and java both without a base image (ZIP) and with one (Image); its languages are
  exactly these three and its runtimes exactly the ten listed; and a scenario is
  exercised for the targets \<^verbatim>\<open>api\<close> and \<^verbatim>\<open>template\<close> exactly when it is not a python
  scenario run under an editor version starting with \<^verbatim>\<open>1.42\<close>.
\<close>

theorem scenario_matrix_coverage:
  "(\<forall>l \<in> {''javascript'', ''python'', ''java''}.
     (\<exists>s \<in> set scenarios. language s = l \<and> baseImage s = None) \<and>
     (\<exists>s \<in> set scenarios. language s = l \<and> isImage s)) \<and>
   language ` set scenarios = {''javascript'', ''python'', ''java''} \<and>
   runtime ` set scenarios =
     {''nodejs10.x'', ''nodejs12.x'', ''nodejs14.x'', ''python2.7'', ''python3.6'',
      ''python3.7'', ''python3.8'', ''java8'', ''java8.al2'', ''java11''} \<and>
   (\<forall>i < length scenarios. \<forall>t \<in> {''api'', ''template''}.
      (i, t) \<in> set (testTargetCalls version) \<longleftrightarrow>
      \<not> (prefix ''1.42'' version \<and> language (scenarios ! i) = ''python''))"
  using scenarios_packaging scenarios_languages scenarios_runtimes
  by (simp add: testTargetCalls_iff targetTests_set skipped_def)

theorem scenario_matrix_coverage_witness:
  "(0::nat) < length scenarios \<and> (0, ''template'') \<in> set (testTargetCalls ''1.52.0'') \<and>
   (\<exists>s \<in> set scenarios. language s = ''java'' \<and> isImage s)"
proof -
  have len: "(0::nat) < length scenarios" by (simp add: scenarios_def)
  have np: "\<not> prefix ''1.42'' ''1.52.0''" by simp
  from scenario_matrix_coverage [of "''1.52.0''"] len np show ?thesis by simp
qed

text \<open>
  C10: in the matrix the debug session type is determined by the language: javascript
  scenarios use \<^verbatim>\<open>pwa-node\<close>, python scenarios \<^verbatim>\<open>python\<close>, java scenarios \<^verbatim>\<open>java\<close>, so two
  scenarios of one language have one debug session type.
\<close>

theorem debugSessionType_by_language:
  "(\<forall>s \<in> set scenarios.
     (language s = ''javascript'' \<longrightarrow> debugSessionType s = ''pwa-node'') \<and>
     (language s = ''python'' \<longrightarrow> debugSessionType s = ''python'') \<and>
     (language s = ''java'' \<longrightarrow> debugSessionType s = ''java'')) \<and>
   (\<forall>s \<in> set scenarios. \<forall>s' \<in> set scenarios.
     language s = language s' \<longrightarrow> debugSessionType s = debugSessionType s')"
  by (simp add: scenarios_def)

theorem debugSessionType_by_language_witness:
  "scenarios ! 4 \<in> set scenarios \<and> language (scenarios ! 4) = ''python'' \<and>
   debugSessionType (scenarios ! 4) = ''python''"
proof -
  have m: "scenarios ! 4 \<in> set scenarios" by (simp add: scenarios_def)
  have l: "language (scenarios ! 4) = ''python''" by (simp add: scenarios_def)
  from debugSessionType_by_language m l show ?thesis by blast
qed

text \<open>
  C7: \<^verbatim>\<open>validateSamDebugSession\<close> returns \<^verbatim>\<open>undefined\<close> exactly when the name of the
  session's configuration is the expected name and its runtime the expected runtime;
  in every other case it returns the failure message, a string.
\<close>

theorem validateSamDebugSession_undefined_iff:
  \<open>(validateSamDebugSession stringify debugSession expectedName expectedRuntime = None \<longleftrightarrow>
      configuration debugSession ''name'' = JString expectedName \<and>
      configuration debugSession ''runtime'' = JString expectedRuntime) \<and>
   (\<not> (configuration debugSession ''name'' = JString expectedName \<and>
        configuration debugSession ''runtime'' = JString expectedRuntime) \<longrightarrow>
      validateSamDebugSession stringify debugSession expectedName expectedRuntime =
        Some (''Unexpected DebugSession (expected name="'' @ expectedName @
              ''" runtime="'' @ expectedRuntime @ ''"):'' @ [CHR 0x0A] @ stringify debugSession))\<close>
  by (simp add: validateSamDebugSession_def Let_def)

theorem validateSamDebugSession_undefined_iff_witness:
  \<open>validateSamDebugSession (\<lambda>s. ''{}'')
      \<lparr>configuration = (\<lambda>k. if k = ''name'' then JString ''test-config-0''
                             else if k = ''runtime'' then JString ''nodejs12.x'' else JUndefined)\<rparr>
      ''test-config-0'' ''nodejs12.x'' = None \<and>
    validateSamDebugSession (\<lambda>s. ''{}'')
      \<lparr>configuration = (\<lambda>k. if k = ''name'' then JString ''test-config-0'' else JUndefined)\<rparr>
      ''test-config-0'' ''nodejs12.x'' =
      Some (''Unexpected DebugSession (expected name="test-config-0" runtime="nodejs12.x"):'' @
            [CHR 0x0A] @ ''{}'')\<close>
proof -
  have a: \<open>validateSamDebugSession (\<lambda>s. ''{}'')
      \<lparr>configuration = (\<lambda>k. if k = ''name'' then JString ''test-config-0''
                             else if k = ''runtime'' then JString ''nodejs12.x'' else JUndefined)\<rparr>
      ''test-config-0'' ''nodejs12.x'' = None\<close>
    using validateSamDebugSession_undefined_iff
      [of "\<lambda>s. ''{}''"
          "\<lparr>configuration = (\<lambda>k. if k = ''name'' then JString ''test-config-0''
                             else if k = ''runtime'' then JString ''nodejs12.x'' else JUndefined)\<rparr>"
          "''test-config-0''" "''nodejs12.x''"]
    by simp
  have b: \<open>validateSamDebugSession (\<lambda>s. ''{}'')
      \<lparr>configuration = (\<lambda>k. if k = ''name'' then JString ''test-config-0'' else JUndefined)\<rparr>
      ''test-config-0'' ''nodejs12.x'' =
      Some (''Unexpected DebugSession (expected name="test-config-0" runtime="nodejs12.x"):'' @
            [CHR 0x0A] @ ''{}'')\<close>
    using validateSamDebugSession_undefined_iff
      [of "\<lambda>s. ''{}''"
          "\<lparr>configuration = (\<lambda>k. if k = ''name'' then JString ''test-config-0'' else JUndefined)\<rparr>"
          "''test-config-0''" "''nodejs12.x''"]
    by simp
  from a b show ?thesis by (rule conjI)
qed

section \<open>Properties of paths\<close>

text \<open>
  On an absolute path of plain segments \<^verbatim>\<open>path.join\<close> appends: for such a
  \<^verbatim>\<open>baseBuildDir\<close> the directory compiled is \<^verbatim>\<open>baseBuildDir/output/awsToolkitSamLocalResource\<close>
  and the file written is \<^verbatim>\<open>tsconfig.json\<close> in it.
\<close>

lemma splitSlash_nonempty: "splitSlash p \<noteq> []"
  by (induction p) (auto split: list.splits)

lemma splitSlash_plain: "CHR ''/'' \<notin> set s \<Longrightarrow> splitSlash s = [s]"
  by (induction s) (auto split: list.splits)

lemma splitSlash_append:
  "CHR ''/'' \<notin> set s \<Longrightarrow> splitSlash (s @ CHR ''/'' # rest) = s # splitSlash rest"
  by (induction s) (auto split: list.splits simp: splitSlash_nonempty)

lemma splitSlash_segments:
  "CHR ''/'' \<notin> set s \<Longrightarrow> \<forall>t \<in> set ss. CHR ''/'' \<notin> set t \<Longrightarrow>
     splitSlash (s @ concat (map (\<lambda>t. CHR ''/'' # t) ss)) = s # ss"
proof (induction ss arbitrary: s)
  case Nil
  then show ?case by (simp add: splitSlash_plain)
next
  case (Cons t ts)
  have "splitSlash (s @ CHR ''/'' # (t @ concat (map (\<lambda>t. CHR ''/'' # t) ts))) =
          s # splitSlash (t @ concat (map (\<lambda>t. CHR ''/'' # t) ts))"
    using Cons.prems(1) by (rule splitSlash_append)
  also have "splitSlash (t @ concat (map (\<lambda>t. CHR ''/'' # t) ts)) = t # ts"
    using Cons.prems(2) by (intro Cons.IH) simp_all
  finally show ?case by simp
qed

lemma splitSlash_renderPath:
  assumes "segs \<noteq> []" and "\<forall>s \<in> set segs. plainSegment s"
  shows "splitSlash (renderPath segs) = [] # segs"
proof -
  from assms(2) have sl: "\<forall>t \<in> set segs. CHR ''/'' \<notin> set t" by (simp add: plainSegment_def)
  have "renderPath segs = [] @ concat (map (\<lambda>t. CHR ''/'' # t) segs)"
    using assms(1) by (simp add: renderPath_def)
  moreover have "splitSlash ([] @ concat (map (\<lambda>t. CHR ''/'' # t) segs)) = [] # segs"
    using sl by (intro splitSlash_segments) simp_all
  ultimately show ?thesis by simp
qed

lemma normalizeSegments_plain:
  "\<forall>s \<in> set segs. plainSegment s \<Longrightarrow>
     normalizeSegments allowAboveRoot segs res = rev res @ segs"
  by (induction segs arbitrary: res) (auto simp: plainSegment_def)

lemma joinWith_slash:
  "joinWith ''/'' (x # xs) = x @ concat (map (\<lambda>t. CHR ''/'' # t) xs)"
  by (induction xs arbitrary: x) auto

lemma renderPath_joinWith:
  "segs \<noteq> [] \<Longrightarrow> renderPath segs = CHR ''/'' # joinWith ''/'' segs"
  by (cases segs) (simp_all add: renderPath_def joinWith_slash)

lemma last_renderPath:
  assumes "segs \<noteq> []" and "\<forall>s \<in> set segs. plainSegment s"
  shows "last (renderPath segs) \<noteq> CHR ''/''"
proof -
  from assms obtain front s where segs: "segs = front @ [s]"
    by (metis rev_exhaust)
  with assms(2) have s: "s \<noteq> []" "CHR ''/'' \<notin> set s" by (simp_all add: plainSegment_def)
  have "renderPath segs = concat (map (\<lambda>t. CHR ''/'' # t) front) @ CHR ''/'' # s"
    by (simp add: segs renderPath_def)
  then have "last (renderPath segs) = last s" using s(1) by simp
  moreover have "last s \<in> set s" using s(1) by simp
  ultimately show ?thesis using s(2) by metis
qed

lemma path_normalize_renderPath:
  assumes "segs \<noteq> []" and "\<forall>s \<in> set segs. plainSegment s"
  shows "path_normalize (renderPath segs) = renderPath segs"
proof -
  have ne: "renderPath segs \<noteq> []" and hd: "hd (renderPath segs) = CHR ''/''"
    using assms(1) by (simp_all add: renderPath_joinWith)
  have q: "joinWith ''/'' (normalizeSegments False (splitSlash (renderPath segs)) []) = joinWith ''/'' segs"
    using assms by (simp add: splitSlash_renderPath normalizeSegments_plain)
  have qne: "joinWith ''/'' segs \<noteq> []"
  proof (cases segs)
    case Nil
    with assms(1) show ?thesis by simp
  next
    case (Cons s ss)
    with assms(2) have "s \<noteq> []" by (simp add: plainSegment_def)
    with Cons show ?thesis by (simp add: joinWith_slash)
  qed
  show ?thesis
    unfolding path_normalize_def Let_def
    using ne hd q qne last_renderPath [OF assms] renderPath_joinWith [OF assms(1)]
    by simp
qed

lemma path_join_plain:
  assumes "segs \<noteq> []" and "\<forall>s \<in> set segs. plainSegment s" and "\<forall>s \<in> set tail_segs. plainSegment s"
  shows "path_join (renderPath segs # tail_segs) = renderPath (segs @ tail_segs)"
proof -
  have ne: "renderPath segs \<noteq> []" using assms(1) by (simp add: renderPath_joinWith)
  have "filter (\<lambda>arg. arg \<noteq> []) tail_segs = tail_segs"
    using assms(3) by (auto simp: plainSegment_def filter_id_conv)
  with ne have f: "filter (\<lambda>arg. arg \<noteq> []) (renderPath segs # tail_segs) = renderPath segs # tail_segs"
    by simp
  have j: "joinWith ''/'' (renderPath segs # tail_segs) = renderPath (segs @ tail_segs)"
    using assms(1) by (simp add: joinWith_slash renderPath_def)
  have "path_normalize (renderPath (segs @ tail_segs)) = renderPath (segs @ tail_segs)"
    using assms by (intro path_normalize_renderPath) auto
  then show ?thesis unfolding path_join_def Let_def f j by simp
qed

lemma compile_paths_plain:
  assumes "segs \<noteq> []" and "\<forall>s \<in> set segs. plainSegment s"
  shows "path_join [renderPath segs, ''output'', ''awsToolkitSamLocalResource''] =
           renderPath segs @ ''/output/awsToolkitSamLocalResource''"
    and "path_join [path_join [renderPath segs, ''output'', ''awsToolkitSamLocalResource''], ''tsconfig.json''] =
           renderPath segs @ ''/output/awsToolkitSamLocalResource/tsconfig.json''"
proof -
  have p: "\<forall>s \<in> set [''output'', ''awsToolkitSamLocalResource'']. plainSegment s"
    "\<forall>s \<in> set [''tsconfig.json'']. plainSegment s"
    by (simp_all add: plainSegment_def)
  have a: "path_join [renderPath segs, ''output'', ''awsToolkitSamLocalResource''] =
             renderPath (segs @ [''output'', ''awsToolkitSamLocalResource''])"
    using path_join_plain [OF assms p(1)] .
  have all: "\<forall>s \<in> set (segs @ [''output'', ''awsToolkitSamLocalResource'']). plainSegment s"
    using assms(2) p(1) by auto
  have b: "path_join [renderPath (segs @ [''output'', ''awsToolkitSamLocalResource'']), ''tsconfig.json''] =
             renderPath ((segs @ [''output'', ''awsToolkitSamLocalResource'']) @ [''tsconfig.json''])"
    by (rule path_join_plain [OF _ all p(2)]) simp
  show "path_join [renderPath segs, ''output'', ''awsToolkitSamLocalResource''] =
           renderPath segs @ ''/output/awsToolkitSamLocalResource''"
    using a assms(1) by (simp add: renderPath_def)
  show "path_join [path_join [renderPath segs, ''output'', ''awsToolkitSamLocalResource''], ''tsconfig.json''] =
           renderPath segs @ ''/output/awsToolkitSamLocalResource/tsconfig.json''"
    unfolding a b using assms(1) by (simp add: renderPath_def)
qed

section \<open>Properties of the TypeScript debugger helper\<close>

subsection \<open>\<^verbatim>\<open>hasTypeScriptFilesRecursive\<close>\<close>

lemma substr_ts_iff: "drop (length name - 3) name = ''.ts'' \<longleftrightarrow> suffix ''.ts'' name"
proof
  assume d: "drop (length name - 3) name = ''.ts''"
  have "name = take (length name - 3) name @ drop (length name - 3) name" by simp
  with d have "name = take (length name - 3) name @ ''.ts''" by simp
  then show "suffix ''.ts'' name" unfolding suffix_def by blast
next
  assume "suffix ''.ts'' name"
  then obtain p where "name = p @ ''.ts''" unfolding suffix_def by blast
  then show "drop (length name - 3) name = ''.ts''" by simp
qed

lemma hasTypeScriptFilesLoop_Cons:
  "hasTypeScriptFilesLoop ((f, node) # files) =
     (if suffix ''.ts'' f then Inr True
      else (case node of
              File \<Rightarrow> hasTypeScriptFilesLoop files
            | NoStat e \<Rightarrow> Inl e
            | NoList e \<Rightarrow> Inl e
            | Dir sub \<Rightarrow>
                (case hasTypeScriptFilesLoop sub of
                   Inl e \<Rightarrow> Inl e
                 | Inr True \<Rightarrow> Inr True
                 | Inr False \<Rightarrow> hasTypeScriptFilesLoop files)))"
  by (cases node) (simp_all add: substr_ts_iff statSync_isDirectory_def)

lemma entriesBelow_Cons_ts:
  "(\<exists>entry \<in> set (entriesBelow ((f, node) # files)). suffix ''.ts'' (fst entry)) \<longleftrightarrow>
     suffix ''.ts'' f \<or>
     (case node of Dir sub \<Rightarrow> \<exists>entry \<in> set (entriesBelow sub). suffix ''.ts'' (fst entry)
                 | _ \<Rightarrow> False) \<or>
     (\<exists>entry \<in> set (entriesBelow files). suffix ''.ts'' (fst entry))"
  by (cases node) auto

lemma readableTree_Nil: "readableTree []"
  by (simp add: readableTree_def)

lemma readableTree_Cons:
  "readableTree ((f, node) # files) \<longleftrightarrow>
     (case node of File \<Rightarrow> True | Dir sub \<Rightarrow> readableTree sub | _ \<Rightarrow> False) \<and>
     readableTree files"
  by (cases node) (auto simp: readableTree_def)

lemma hasTypeScriptFilesLoop_result:
  "hasTypeScriptFilesLoop files = Inr b \<Longrightarrow>
     b = (\<exists>entry \<in> set (entriesBelow files). suffix ''.ts'' (fst entry))"
proof (induction files arbitrary: b rule: entriesBelow.induct)
  case 1
  then show ?case by simp
next
  case (2 f node files)
  show ?case
  proof (cases "suffix ''.ts'' f")
    case True
    with "2.prems" show ?thesis
      unfolding hasTypeScriptFilesLoop_Cons entriesBelow_Cons_ts by simp
  next
    case no: False
    show ?thesis
    proof (cases node)
      case File
      with no "2.prems" have "hasTypeScriptFilesLoop files = Inr b"
        unfolding hasTypeScriptFilesLoop_Cons by simp
      from "2.IH"(2) [OF this] no File show ?thesis
        unfolding entriesBelow_Cons_ts by simp
    next
      case (Dir sub)
      from no Dir "2.prems" obtain c where c: "hasTypeScriptFilesLoop sub = Inr c"
        unfolding hasTypeScriptFilesLoop_Cons by (cases "hasTypeScriptFilesLoop sub") auto
      from "2.IH"(1) [OF Dir c]
      have sub: "c = (\<exists>entry \<in> set (entriesBelow sub). suffix ''.ts'' (fst entry))" .
      show ?thesis
      proof (cases c)
        case True
        with no Dir c sub "2.prems" show ?thesis
          unfolding hasTypeScriptFilesLoop_Cons entriesBelow_Cons_ts by simp
      next
        case False
        with no Dir c "2.prems" have "hasTypeScriptFilesLoop files = Inr b"
          unfolding hasTypeScriptFilesLoop_Cons by simp
        from "2.IH"(2) [OF this] False no Dir sub show ?thesis
          unfolding entriesBelow_Cons_ts by simp
      qed
    next
      case (NoStat e)
      with no "2.prems" show ?thesis unfolding hasTypeScriptFilesLoop_Cons by simp
    next
      case (NoList e)
      with no "2.prems" show ?thesis unfolding hasTypeScriptFilesLoop_Cons by simp
    qed
  qed
qed

lemma hasTypeScriptFilesLoop_returns:
  "readableTree files \<Longrightarrow> \<exists>b. hasTypeScriptFilesLoop files = Inr b"
proof (induction files rule: entriesBelow.induct)
  case 1
  have "hasTypeScriptFilesLoop [] = Inr False" by simp
  then show ?case by (rule exI)
next
  case (2 f node files)
  from "2.prems" have rest: "readableTree files" by (simp add: readableTree_Cons)
  from "2.IH"(2) [OF rest] obtain b where b: "hasTypeScriptFilesLoop files = Inr b" by blast
  show ?case
  proof (cases node)
    case File
    with b have "hasTypeScriptFilesLoop ((f, node) # files) = Inr (suffix ''.ts'' f \<or> b)"
      unfolding hasTypeScriptFilesLoop_Cons by simp
    then show ?thesis by (rule exI)
  next
    case (Dir sub)
    with "2.prems" have "readableTree sub" by (simp add: readableTree_Cons)
    from "2.IH"(1) [OF Dir this] obtain c where "hasTypeScriptFilesLoop sub = Inr c" by blast
    with Dir b have "hasTypeScriptFilesLoop ((f, node) # files) = Inr (suffix ''.ts'' f \<or> c \<or> b)"
      unfolding hasTypeScriptFilesLoop_Cons by (cases c) simp_all
    then show ?thesis by (rule exI)
  next
    case (NoStat e)
    with "2.prems" show ?thesis by (simp add: readableTree_Cons)
  next
    case (NoList e)
    with "2.prems" show ?thesis by (simp add: readableTree_Cons)
  qed
qed

lemma hasTypeScriptFilesLoop_readable:
  "readableTree files \<Longrightarrow>
     hasTypeScriptFilesLoop files = Inr (\<exists>entry \<in> set (entriesBelow files). suffix ''.ts'' (fst entry))"
proof -
  assume "readableTree files"
  then obtain b where b: "hasTypeScriptFilesLoop files = Inr b"
    using hasTypeScriptFilesLoop_returns by blast
  from hasTypeScriptFilesLoop_result [OF b] b show ?thesis by simp
qed

text \<open>
  C9, as the claim states it, fails: the function catches nothing, so a \<^verbatim>\<open>statSync\<close>
  that throws ends it. In a directory that lists a link to nothing before \<^verbatim>\<open>app.ts\<close> the
  call throws the error of the link and does not return true, although an entry ends
  in \<^verbatim>\<open>.ts\<close>.
\<close>

theorem hasTypeScriptFilesRecursive_stat_fails_counterexample:
  "suffix ''.ts'' ''app.ts'' \<and>
   hasTypeScriptFilesRecursive
     (Dir [(''a-link'', NoStat (SystemError ''ENOENT: no such file or directory, stat a-link'')),
           (''app.ts'', File)]) =
     Inl (SystemError ''ENOENT: no such file or directory, stat a-link'')"
  by (simp add: suffix_def statSync_isDirectory_def)

text \<open>
  C9, amended: on a directory in whose tree every \<^verbatim>\<open>statSync\<close> and \<^verbatim>\<open>readdirSync\<close>
  succeeds, \<^verbatim>\<open>hasTypeScriptFilesRecursive\<close> returns true exactly when some entry at any
  depth has a name ending in \<^verbatim>\<open>.ts\<close>, and a directory with such a name is enough, since
  the name is tested before the kind of the entry. On any directory, whenever the call
  returns, what it returns is whether some entry has such a name.
\<close>

theorem hasTypeScriptFilesRecursive_any_entry:
  "(readableTree files \<longrightarrow>
      hasTypeScriptFilesRecursive (Dir files) =
        Inr (\<exists>entry \<in> set (entriesBelow files). suffix ''.ts'' (fst entry))) \<and>
   (\<forall>b. hasTypeScriptFilesRecursive (Dir files) = Inr b \<longrightarrow>
      b = (\<exists>entry \<in> set (entriesBelow files). suffix ''.ts'' (fst entry))) \<and>
   (readableTree files \<and> (name, Dir sub) \<in> set (entriesBelow files) \<and> suffix ''.ts'' name \<longrightarrow>
      hasTypeScriptFilesRecursive (Dir files) = Inr True)"
proof (intro conjI impI allI)
  assume "readableTree files"
  then show "hasTypeScriptFilesRecursive (Dir files) =
        Inr (\<exists>entry \<in> set (entriesBelow files). suffix ''.ts'' (fst entry))"
    by (simp add: hasTypeScriptFilesLoop_readable)
next
  fix b assume "hasTypeScriptFilesRecursive (Dir files) = Inr b"
  then show "b = (\<exists>entry \<in> set (entriesBelow files). suffix ''.ts'' (fst entry))"
    by (simp add: hasTypeScriptFilesLoop_result)
next
  assume a: "readableTree files \<and> (name, Dir sub) \<in> set (entriesBelow files) \<and> suffix ''.ts'' name"
  then have "\<exists>entry \<in> set (entriesBelow files). suffix ''.ts'' (fst entry)" by force
  with a show "hasTypeScriptFilesRecursive (Dir files) = Inr True"
    by (simp add: hasTypeScriptFilesLoop_readable)
qed

theorem hasTypeScriptFilesRecursive_any_entry_witness:
  "readableTree [(''src'', Dir [(''types.ts'', Dir [])])] \<and>
   (''types.ts'', Dir []) \<in> set (entriesBelow [(''src'', Dir [(''types.ts'', Dir [])])]) \<and>
   suffix ''.ts'' ''types.ts'' \<and>
   hasTypeScriptFilesRecursive (Dir [(''src'', Dir [(''types.ts'', Dir [])])]) = Inr True \<and>
   readableTree [(''src'', Dir [(''app.js'', File)]), (''ts'', File)] \<and>
   hasTypeScriptFilesRecursive (Dir [(''src'', Dir [(''app.js'', File)]), (''ts'', File)]) = Inr False"
proof -
  have r1: "readableTree [(''src'', Dir [(''types.ts'', Dir [])])]"
    by (simp add: readableTree_def)
  have m: "(''types.ts'', Dir []) \<in> set (entriesBelow [(''src'', Dir [(''types.ts'', Dir [])])])"
    by simp
  have s: "suffix ''.ts'' ''types.ts''" by (simp add: suffix_def)
  have r2: "readableTree [(''src'', Dir [(''app.js'', File)]), (''ts'', File)]"
    by (simp add: readableTree_def)
  have n: "\<not> (\<exists>entry \<in> set (entriesBelow [(''src'', Dir [(''app.js'', File)]), (''ts'', File)]).
              suffix ''.ts'' (fst entry))"
    by (simp add: suffix_def)
  have a: "hasTypeScriptFilesRecursive (Dir [(''src'', Dir [(''types.ts'', Dir [])])]) = Inr True"
    using hasTypeScriptFilesRecursive_any_entry [of "[(''src'', Dir [(''types.ts'', Dir [])])]" "''types.ts''" "[]",
              THEN conjunct2, THEN conjunct2, THEN mp, OF conjI [OF r1 conjI [OF m s]]] .
  have "hasTypeScriptFilesRecursive (Dir [(''src'', Dir [(''app.js'', File)]), (''ts'', File)]) =
          Inr (\<exists>entry \<in> set (entriesBelow [(''src'', Dir [(''app.js'', File)]), (''ts'', File)]).
                 suffix ''.ts'' (fst entry))"
    using hasTypeScriptFilesRecursive_any_entry [of "[(''src'', Dir [(''app.js'', File)]), (''ts'', File)]", THEN conjunct1, THEN mp, OF r2] .
  with n
  have b: "hasTypeScriptFilesRecursive (Dir [(''src'', Dir [(''app.js'', File)]), (''ts'', File)]) = Inr False"
    by (simp only: simp_thms)
  from r1 m s a r2 b show ?thesis by (intro conjI)
qed

subsection \<open>\<^verbatim>\<open>makeTypescriptConfig\<close>\<close>

lemma searchProjectRoot_config:
  "searchProjectRoot deps config = (res, config1, events1) \<Longrightarrow>
     \<exists>cr. config1 = config\<lparr>codeRoot := cr\<rparr>"
proof -
  assume a: "searchProjectRoot deps config = (res, config1, events1)"
  have same: "config = config\<lparr>codeRoot := codeRoot config\<rparr>" by simp
  from a have "config1 = config \<or> (\<exists>r. config1 = config\<lparr>codeRoot := Some r\<rparr>)"
    by (auto simp: searchProjectRoot_def Let_def split: option.splits sum.splits if_splits)
  with same show ?thesis by metis
qed

lemma discoverCodeRoot_config:
  "discoverCodeRoot deps config = (res, config1, events1) \<Longrightarrow>
     \<exists>cr. config1 = config\<lparr>codeRoot := cr\<rparr>"
proof -
  assume a: "discoverCodeRoot deps config = (res, config1, events1)"
  have same: "config = config\<lparr>codeRoot := codeRoot config\<rparr>" by simp
  from a have "searchProjectRoot deps config = (res, config1, events1) \<or> config1 = config"
    by (auto simp: discoverCodeRoot_def split: option.splits if_splits)
  with same searchProjectRoot_config show ?thesis by metis
qed

lemma discoverCodeRoot_set:
  "codeRoot config = Some r \<Longrightarrow> r \<noteq> [] \<Longrightarrow> discoverCodeRoot deps config = (Inr r, config, [])"
  by (simp add: discoverCodeRoot_def)

lemma discoverCodeRoot_no_warning:
  "discoverCodeRoot deps config = (res, config1, events1) \<Longrightarrow> LogWarn w \<notin> set events1"
  by (auto simp: discoverCodeRoot_def searchProjectRoot_def Let_def
           split: option.splits sum.splits if_splits)

lemma makeTypescriptConfig_returns:
  assumes "\<not> unset (baseBuildDir config)"
    and "discoverCodeRoot deps config = (Inr root, config1, events1)"
    and "makeInputTemplate deps (config1\<lparr>codeRoot := Some (normalize deps root)\<rparr>) = Inr template"
  shows "\<exists>c config' events. makeTypescriptConfig deps config = (Inr c, config', events)"
  using assms by (simp add: makeTypescriptConfig_def Let_def split: prod.splits)

lemma sampleDeps_normalize: "normalize sampleDeps ''/ws/app'' = ''/ws/app''"
  by (simp add: sampleDeps_def path_normalize_def Let_def)

lemma userMapping_cases:
  "userMapping config = (mapping, events2) \<Longrightarrow>
     (\<forall>l m ms. lambda config = Some l \<and> pathMappings l = Some (m # ms) \<longrightarrow>
        mapping = Some m \<and> (LogWarn w \<in> set events2 \<longleftrightarrow>
          ms \<noteq> [] \<and> w = ''This language only supports a single path mapping entry. Taking the first entry in the list.'')) \<and>
     ((\<forall>l. lambda config = Some l \<longrightarrow> pathMappings l = None \<or> pathMappings l = Some []) \<longrightarrow>
        mapping = None \<and> events2 = [])"
  by (auto simp: userMapping_def split: option.splits list.splits if_splits)

text \<open>
  A configuration that \<^verbatim>\<open>makeTypescriptConfig\<close> returns has its \<^verbatim>\<open>baseBuildDir\<close> set: the
  guard at the start of the function has passed and the field is copied.
\<close>

lemma makeTypescriptConfig_baseBuildDir_set:
  assumes "makeTypescriptConfig deps config = (Inr c, config', events)"
  shows "\<exists>buildDir. baseBuildDir c = Some buildDir \<and> buildDir \<noteq> []"
proof -
  from assms have set: "\<not> unset (baseBuildDir config)"
    by (auto simp: makeTypescriptConfig_def split: if_splits)
  obtain res config1 events1 where d: "discoverCodeRoot deps config = (res, config1, events1)"
    by (cases "discoverCodeRoot deps config") auto
  from discoverCodeRoot_config [OF d] obtain cr where c1: "config1 = config\<lparr>codeRoot := cr\<rparr>"
    by blast
  from assms set d have "baseBuildDir c = baseBuildDir config"
    by (auto simp: makeTypescriptConfig_def Let_def c1 SamLaunchRequestArgs.extend_def
          NodejsDebugConfiguration.fields_def split: if_splits sum.splits prod.splits)
  with set show ?thesis by (cases "baseBuildDir config") (auto simp: unset_def)
qed

text \<open>
  C8: when \<^verbatim>\<open>config.baseBuildDir\<close> is unset (\<^verbatim>\<open>undefined\<close> or the empty string),
  \<^verbatim>\<open>makeTypescriptConfig\<close> throws the error
  \<^verbatim>\<open>invalid state: config.baseBuildDir was not set\<close> before anything else: the
  configuration is left as it was and no call to the outside is made, so no file is
  created.
\<close>

theorem makeTypescriptConfig_baseBuildDir_unset:
  "unset (baseBuildDir config) \<Longrightarrow>
     makeTypescriptConfig deps config =
       (Inl (Error ''invalid state: config.baseBuildDir was not set''), config, [])"
  by (simp add: makeTypescriptConfig_def)

theorem makeTypescriptConfig_baseBuildDir_unset_witness:
  "unset (baseBuildDir (sampleArgs\<lparr>baseBuildDir := None\<rparr>)) \<and>
   unset (baseBuildDir (sampleArgs\<lparr>baseBuildDir := Some ''''\<rparr>)) \<and>
   makeTypescriptConfig sampleDeps (sampleArgs\<lparr>baseBuildDir := None\<rparr>) =
     (Inl (Error ''invalid state: config.baseBuildDir was not set''),
      sampleArgs\<lparr>baseBuildDir := None\<rparr>, []) \<and>
   makeTypescriptConfig sampleDeps (sampleArgs\<lparr>baseBuildDir := Some ''''\<rparr>) =
     (Inl (Error ''invalid state: config.baseBuildDir was not set''),
      sampleArgs\<lparr>baseBuildDir := Some ''''\<rparr>, [])"
proof -
  have u1: "unset (baseBuildDir (sampleArgs\<lparr>baseBuildDir := None\<rparr>))"
    by (simp add: unset_def)
  have u2: "unset (baseBuildDir (sampleArgs\<lparr>baseBuildDir := Some ''''\<rparr>))"
    by (simp add: unset_def)
  from u1 u2 makeTypescriptConfig_baseBuildDir_unset [OF u1, of sampleDeps] makeTypescriptConfig_baseBuildDir_unset [OF u2, of sampleDeps] show ?thesis by simp
qed

text \<open>
  C1, as the claim states it, fails: \<^verbatim>\<open>makeInputTemplate\<close> is awaited with nothing around
  it, so when it rejects the call throws. With \<^verbatim>\<open>baseBuildDir\<close> set and the code root given,
  a template that cannot be written leaves no launch configuration.
\<close>

theorem makeTypescriptConfig_template_rejected_counterexample:
  "\<not> unset (baseBuildDir sampleArgs) \<and> codeRoot sampleArgs = Some ''/ws/app'' \<and>
   fst (makeTypescriptConfig
          (sampleDeps\<lparr>makeInputTemplate :=
             (\<lambda>config. Inl (SystemError ''EACCES: permission denied, mkdir /tmp/build/input''))\<rparr>)
          sampleArgs) =
     Inl (SystemError ''EACCES: permission denied, mkdir /tmp/build/input'')"
proof -
  let ?deps = "sampleDeps\<lparr>makeInputTemplate :=
             (\<lambda>config. Inl (SystemError ''EACCES: permission denied, mkdir /tmp/build/input''))\<rparr>"
  have s: "\<not> unset (baseBuildDir sampleArgs)" by (simp add: sampleArgs_def unset_def)
  have c: "codeRoot sampleArgs = Some ''/ws/app''" by (simp add: sampleArgs_def)
  have r: "discoverCodeRoot ?deps sampleArgs = (Inr ''/ws/app'', sampleArgs, [])"
    by (rule discoverCodeRoot_set) (simp_all add: sampleArgs_def)
  have "fst (makeTypescriptConfig ?deps sampleArgs) =
          Inl (SystemError ''EACCES: permission denied, mkdir /tmp/build/input'')"
    using s r by (simp add: makeTypescriptConfig_def Let_def)
  with s c show ?thesis by (intro conjI)
qed

text \<open>
  C1, amended: when \<^verbatim>\<open>config.baseBuildDir\<close> is set, the code root resolves (it is given,
  or the project root is found) and the awaited \<^verbatim>\<open>makeInputTemplate\<close> resolves,
  \<^verbatim>\<open>makeTypescriptConfig\<close> returns a launch configuration with \<^verbatim>\<open>type = 'node'\<close>,
  \<^verbatim>\<open>protocol = 'inspector'\<close>, \<^verbatim>\<open>address = 'localhost'\<close>, \<^verbatim>\<open>runtimeFamily = NodeJS\<close>,
  \<^verbatim>\<open>preLaunchTask = undefined\<close>, \<^verbatim>\<open>request = 'launch'\<close> when \<^verbatim>\<open>config.noDebug\<close> is true and
  \<^verbatim>\<open>'attach'\<close> otherwise, \<^verbatim>\<open>port = config.debugPort\<close> when that is defined and \<^verbatim>\<open>-1\<close>
  otherwise, and \<^verbatim>\<open>stopOnEntry = false\<close> when \<^verbatim>\<open>config.stopOnEntry\<close> is undefined and its
  boolean coercion otherwise.
\<close>

theorem makeTypescriptConfig_launch_fields:
  assumes set: "\<not> unset (baseBuildDir config)"
    and root: "discoverCodeRoot deps config = (Inr root, config1, events1)"
    and template: "makeInputTemplate deps (config1\<lparr>codeRoot := Some (normalize deps root)\<rparr>) = Inr template"
  shows "\<exists>c. fst (makeTypescriptConfig deps config) = Inr c \<and>
           type c = ''node'' \<and> protocol c = ''inspector'' \<and> address c = ''localhost'' \<and>
           runtimeFamily c = NodeJS \<and> preLaunchTask c = None \<and>
           request c = (if noDebug config = Some True then ''launch'' else ''attach'') \<and>
           port c = (case debugPort config of Some p \<Rightarrow> p | None \<Rightarrow> - 1) \<and>
           stopOnEntry c = (if stopOnEntry config = JUndefined then JBool False
                            else JBool (truthy (stopOnEntry config)))"
proof -
  from discoverCodeRoot_config [OF root] obtain cr where c1: "config1 = config\<lparr>codeRoot := cr\<rparr>"
    by blast
  show ?thesis
    using set root template
    by (simp add: makeTypescriptConfig_def Let_def c1 SamLaunchRequestArgs.extend_def
          NodejsDebugConfiguration.fields_def split: prod.splits)
qed


theorem makeTypescriptConfig_launch_fields_witness:
  "\<not> unset (baseBuildDir sampleArgs) \<and>
   discoverCodeRoot sampleDeps sampleArgs = (Inr ''/ws/app'', sampleArgs, []) \<and>
   (\<exists>c. fst (makeTypescriptConfig sampleDeps sampleArgs) = Inr c \<and>
        type c = ''node'' \<and> request c = ''attach'' \<and> port c = 5858 \<and>
        stopOnEntry c = JBool False)"
proof -
  have s: "\<not> unset (baseBuildDir sampleArgs)" by (simp add: sampleArgs_def unset_def)
  have r: "discoverCodeRoot sampleDeps sampleArgs = (Inr ''/ws/app'', sampleArgs, [])"
    by (rule discoverCodeRoot_set) (simp_all add: sampleArgs_def)
  have t: "makeInputTemplate sampleDeps (sampleArgs\<lparr>codeRoot := Some (normalize sampleDeps ''/ws/app'')\<rparr>)
             = Inr ''/tmp/build/input/input-template.yaml''"
    by (simp add: sampleDeps_def)
  have v: "noDebug sampleArgs = None" "debugPort sampleArgs = Some 5858"
    "stopOnEntry sampleArgs = JUndefined"
    by (simp_all add: sampleArgs_def)
  from makeTypescriptConfig_launch_fields [OF s r t] s r show ?thesis unfolding v by auto
qed

text \<open>
  C4: in the configuration \<^verbatim>\<open>makeTypescriptConfig\<close> returns, when
  \<^verbatim>\<open>config.lambda.pathMappings\<close> is defined and not empty, \<^verbatim>\<open>localRoot\<close> and \<^verbatim>\<open>remoteRoot\<close>
  are those of its first entry, the other entries are ignored, and the warning is
  logged exactly when there is more than one entry; otherwise \<^verbatim>\<open>localRoot\<close> is the
  normalized code root, which is also the \<^verbatim>\<open>codeRoot\<close> of the result, \<^verbatim>\<open>remoteRoot\<close> is
  \<^verbatim>\<open>/var/task\<close>, and no warning is logged.
\<close>

theorem makeTypescriptConfig_roots:
  assumes run: "makeTypescriptConfig deps config = (Inr c, config', events)"
  shows "(\<forall>l m ms. lambda config = Some l \<and> pathMappings l = Some (m # ms) \<longrightarrow>
            NodejsDebugConfiguration.localRoot c = PathMapping.localRoot m \<and>
            NodejsDebugConfiguration.remoteRoot c = PathMapping.remoteRoot m \<and>
            (LogWarn ''This language only supports a single path mapping entry. Taking the first entry in the list.''
               \<in> set events \<longleftrightarrow> ms \<noteq> [])) \<and>
         ((\<forall>l. lambda config = Some l \<longrightarrow> pathMappings l = None \<or> pathMappings l = Some []) \<longrightarrow>
            codeRoot c = Some (NodejsDebugConfiguration.localRoot c) \<and>
            (\<exists>root. fst (discoverCodeRoot deps config) = Inr root \<and>
                    NodejsDebugConfiguration.localRoot c = normalize deps root) \<and>
            (\<forall>r. codeRoot config = Some r \<and> r \<noteq> [] \<longrightarrow>
                    NodejsDebugConfiguration.localRoot c = normalize deps r) \<and>
            NodejsDebugConfiguration.remoteRoot c = ''/var/task'' \<and>
            (\<forall>w. LogWarn w \<notin> set events))"
proof -
  obtain res config1 events1 where d: "discoverCodeRoot deps config = (res, config1, events1)"
    by (cases "discoverCodeRoot deps config") auto
  from discoverCodeRoot_config [OF d] obtain cr where c1: "config1 = config\<lparr>codeRoot := cr\<rparr>"
    by blast
  from run d obtain root where res: "res = Inr root"
    by (cases res) (auto simp: makeTypescriptConfig_def split: if_splits)
  define config2 where "config2 = config1\<lparr>codeRoot := Some (normalize deps root)\<rparr>"
  from run d res obtain template where t: "makeInputTemplate deps config2 = Inr template"
    by (cases "makeInputTemplate deps config2")
       (auto simp: makeTypescriptConfig_def Let_def config2_def split: if_splits)
  define config4 where "config4 =
     (if isImageLambdaConfig deps (config2\<lparr>templatePath := Some template\<rparr>) \<and> noDebug config \<noteq> Some True
      then config2\<lparr>templatePath := Some template,
             containerEnvVars := Some [(''NODE_OPTIONS'',
               ''--inspect-brk=0.0.0.0:'' @ showOptInt (debugPort config) @
               '' --max-http-header-size 81920'')]\<rparr>
      else config2\<lparr>templatePath := Some template\<rparr>)"
  have l4: "lambda config4 = lambda config" and cr4: "codeRoot config4 = Some (normalize deps root)"
    by (simp_all add: config4_def config2_def c1)
  obtain mapping events2 where um: "userMapping config4 = (mapping, events2)"
    by (cases "userMapping config4") auto
  have um': "userMapping config = (mapping, events2)"
    using um l4 by (simp add: userMapping_def)
  from run d res t um have ev: "events = events1 @ [MakeInputTemplate] @ events2"
    and lr: "NodejsDebugConfiguration.localRoot c =
               (case mapping of None \<Rightarrow> normalize deps root | Some m \<Rightarrow> PathMapping.localRoot m)"
    and rr: "NodejsDebugConfiguration.remoteRoot c =
               (case mapping of None \<Rightarrow> ''/var/task'' | Some m \<Rightarrow> PathMapping.remoteRoot m)"
    and crc: "codeRoot c = Some (normalize deps root)"
    by (auto simp: makeTypescriptConfig_def Let_def config2_def config4_def c1
          SamLaunchRequestArgs.extend_def NodejsDebugConfiguration.fields_def
          split: if_splits)
  have nw: "\<And>w. LogWarn w \<notin> set events1" using discoverCodeRoot_no_warning [OF d] .
  have given: "\<And>r. codeRoot config = Some r \<Longrightarrow> r \<noteq> [] \<Longrightarrow> root = r"
    using d res by (simp add: discoverCodeRoot_set)
  show ?thesis
    using userMapping_cases [OF um'] lr rr crc nw given d res
    by (auto simp: ev)
qed

theorem makeTypescriptConfig_roots_witness:
  "(\<exists>c config' events.
      makeTypescriptConfig sampleDeps
        (sampleArgs\<lparr>lambda := Some \<lparr>pathMappings = Some sampleMappings\<rparr>\<rparr>) = (Inr c, config', events) \<and>
      NodejsDebugConfiguration.localRoot c = ''/ws/app/src'' \<and>
      NodejsDebugConfiguration.remoteRoot c = ''/var/task/src'' \<and>
      LogWarn ''This language only supports a single path mapping entry. Taking the first entry in the list.''
        \<in> set events) \<and>
   (\<exists>c config' events.
      makeTypescriptConfig sampleDeps sampleArgs = (Inr c, config', events) \<and>
      NodejsDebugConfiguration.localRoot c = ''/ws/app'' \<and>
      NodejsDebugConfiguration.remoteRoot c = ''/var/task'' \<and>
      (\<forall>w. LogWarn w \<notin> set events))"
proof -
  let ?m = "sampleArgs\<lparr>lambda := Some \<lparr>pathMappings = Some sampleMappings\<rparr>\<rparr>"
  have s: "\<not> unset (baseBuildDir ?m)" "\<not> unset (baseBuildDir sampleArgs)"
    by (simp_all add: sampleArgs_def unset_def)
  have cr: "codeRoot ?m = Some ''/ws/app''" "codeRoot sampleArgs = Some ''/ws/app''"
    by (simp_all add: sampleArgs_def)
  have r: "discoverCodeRoot sampleDeps ?m = (Inr ''/ws/app'', ?m, [])"
    "discoverCodeRoot sampleDeps sampleArgs = (Inr ''/ws/app'', sampleArgs, [])"
    by (rule discoverCodeRoot_set, simp_all add: sampleArgs_def)+
  have t: "makeInputTemplate sampleDeps (c\<lparr>codeRoot := Some (normalize sampleDeps ''/ws/app'')\<rparr>)
             = Inr ''/tmp/build/input/input-template.yaml''" for c
    by (simp add: sampleDeps_def)
  from makeTypescriptConfig_returns [OF s(1) r(1) t]
  obtain c1 k1 e1 where run1: "makeTypescriptConfig sampleDeps ?m = (Inr c1, k1, e1)" by blast
  from makeTypescriptConfig_returns [OF s(2) r(2) t]
  obtain c2 k2 e2 where run2: "makeTypescriptConfig sampleDeps sampleArgs = (Inr c2, k2, e2)" by blast
  have l1: "lambda ?m = Some \<lparr>pathMappings = Some sampleMappings\<rparr>"
    "pathMappings \<lparr>pathMappings = Some sampleMappings\<rparr> =
       Some (\<lparr>PathMapping.localRoot = ''/ws/app/src'', PathMapping.remoteRoot = ''/var/task/src''\<rparr> #
             [\<lparr>PathMapping.localRoot = ''/ws/other'', PathMapping.remoteRoot = ''/var/other''\<rparr>])"
    by (simp_all add: sampleMappings_def)
  have l2: "\<forall>l. lambda sampleArgs = Some l \<longrightarrow> pathMappings l = None \<or> pathMappings l = Some []"
    by (simp add: sampleArgs_def)
  from makeTypescriptConfig_roots [OF run1] l1
  have a: "NodejsDebugConfiguration.localRoot c1 = ''/ws/app/src'' \<and>
           NodejsDebugConfiguration.remoteRoot c1 = ''/var/task/src'' \<and>
           LogWarn ''This language only supports a single path mapping entry. Taking the first entry in the list.''
             \<in> set e1"
    by fastforce
  from makeTypescriptConfig_roots [OF run2] l2 cr(2)
  have b: "NodejsDebugConfiguration.localRoot c2 = ''/ws/app'' \<and>
           NodejsDebugConfiguration.remoteRoot c2 = ''/var/task'' \<and> (\<forall>w. LogWarn w \<notin> set e2)"
    by (simp add: sampleDeps_normalize)
  from a b run1 run2 show ?thesis by blast
qed

subsection \<open>\<^verbatim>\<open>compileTypeScript\<close>\<close>

lemma readdir_Dir:
  "readdir host (Some root) = Inr files \<longleftrightarrow> fileSystem host root = Some (Dir files)"
  by (auto simp: readdir_def nodeAt_def readdirSync_def split: option.splits fsnode.splits)

lemma readdir_nodeAt:
  "readdir host p = Inr files \<Longrightarrow> nodeAt host p = Inr (Dir files)"
  by (auto simp: readdir_def readdirSync_def split: sum.splits fsnode.splits)

lemma compileStep_outcome:
  "compileStep host config appRoot tsconfigPath =
     (case writeFileSync host tsconfigPath defaultTsconfig of
        Some error \<Rightarrow>
          (Inl (Error ''Failed to compile typescript Lambda''), config,
           [WriteFileSync tsconfigPath defaultTsconfig,
            LogError (''Compile Error: '' @ errorToString error)])
      | None \<Rightarrow>
          (case childProcessRun host (''tsc --project '' @ appRoot) of
             Some error \<Rightarrow>
               (Inl (Error ''Failed to compile typescript Lambda''), config,
                [WriteFileSync tsconfigPath defaultTsconfig, LogInfo ''Compiling TypeScript'',
                 ChildProcessRun (''tsc --project '' @ appRoot),
                 LogError (''Compile Error: '' @ errorToString error)])
           | None \<Rightarrow>
               (Inr (), config,
                [WriteFileSync tsconfigPath defaultTsconfig, LogInfo ''Compiling TypeScript'',
                 ChildProcessRun (''tsc --project '' @ appRoot)])))"
  by (simp add: compileStep_def Let_def split: option.splits)

lemma compileTypeScript_compiles:
  assumes "target (invokeTarget config) = ''code''"
    and "baseBuildDir config = Some buildDir"
    and "readdir host (codeRoot config) = Inr files"
    and "''tsconfig.json'' \<in> fst ` set files \<or> hasTypeScriptFilesLoop files = Inr True"
    and "appRoot = path_join [buildDir, ''output'', ''awsToolkitSamLocalResource'']"
    and "tsconfigPath = path_join [appRoot, ''tsconfig.json'']"
  shows "compileTypeScript host config = compileStep host config appRoot tsconfigPath"
  using assms readdir_nodeAt [OF assms(3)]
  by (auto simp: compileTypeScript_def Let_def)

lemma compileTypeScript_skips:
  assumes "target (invokeTarget config) = ''code''"
    and "baseBuildDir config = Some buildDir"
    and "readdir host (codeRoot config) = Inr files"
    and "''tsconfig.json'' \<notin> fst ` set files" and "hasTypeScriptFilesLoop files = Inr False"
  shows "compileTypeScript host config = (Inr (), config, [])"
  using assms readdir_nodeAt [OF assms(3)]
  by (simp add: compileTypeScript_def Let_def)

lemma compileTypeScript_scan_fails:
  assumes "target (invokeTarget config) = ''code''"
    and "baseBuildDir config = Some buildDir"
    and "readdir host (codeRoot config) = Inr files"
    and "''tsconfig.json'' \<notin> fst ` set files" and "hasTypeScriptFilesLoop files = Inl e"
  shows "compileTypeScript host config = (Inl e, config, [])"
  using assms readdir_nodeAt [OF assms(3)]
  by (simp add: compileTypeScript_def Let_def)

lemma sample_appRoot:
  "path_join [''/tmp/build'', ''output'', ''awsToolkitSamLocalResource''] =
     ''/tmp/build/output/awsToolkitSamLocalResource''"
  by (simp add: path_join_def path_normalize_def Let_def)

lemma sample_tsconfigPath:
  "path_join [''/tmp/build/output/awsToolkitSamLocalResource'', ''tsconfig.json''] =
     ''/tmp/build/output/awsToolkitSamLocalResource/tsconfig.json''"
  by (simp add: path_join_def path_normalize_def Let_def)

lemma sampleLaunchConfig_fields:
  "target (invokeTarget sampleLaunchConfig) = ''code''"
  "baseBuildDir sampleLaunchConfig = Some ''/tmp/build''"
  "codeRoot sampleLaunchConfig = Some ''/ws/app''"
  by (simp_all add: sampleLaunchConfig_def sampleArgs_def SamLaunchRequestArgs.extend_def)

lemma sampleHost_fields:
  "fileSystem (sampleHost files) ''/ws/app'' = Some (Dir files)"
  "writeFileSync (sampleHost files) p content = None"
  "childProcessRun (sampleHost files) command = None"
  by (simp_all add: sampleHost_def)

lemma sampleHost_readdir:
  "readdir (sampleHost files) (codeRoot sampleLaunchConfig) = Inr files"
  by (simp add: sampleLaunchConfig_fields readdir_Dir sampleHost_fields)

text \<open>
  C2, as the claim states it, fails: the search for TypeScript files runs in the
  condition of the \<^verbatim>\<open>if\<close>, outside the \<^verbatim>\<open>try\<close>. A code root that holds \<^verbatim>\<open>app.ts\<close> behind a
  link to nothing makes the call throw the error of \<^verbatim>\<open>statSync\<close>: nothing is written,
  nothing is run, and the error is not \<^verbatim>\<open>Failed to compile typescript Lambda\<close>.
\<close>

theorem compile_step_dangling_link_counterexample:
  "(''app.ts'', File) \<in> set (entriesBelow
      [(''lib'', NoStat (SystemError ''ENOENT: no such file or directory, stat /ws/app/lib'')),
       (''app.ts'', File)]) \<and>
   compileTypeScript
     (sampleHost [(''lib'', NoStat (SystemError ''ENOENT: no such file or directory, stat /ws/app/lib'')),
                  (''app.ts'', File)])
     sampleLaunchConfig =
     (Inl (SystemError ''ENOENT: no such file or directory, stat /ws/app/lib''), sampleLaunchConfig, [])"
proof -
  let ?files = "[(''lib'', NoStat (SystemError ''ENOENT: no such file or directory, stat /ws/app/lib'')),
                 (''app.ts'', File)]"
  have m: "(''app.ts'', File) \<in> set (entriesBelow ?files)" by simp
  have a: "''tsconfig.json'' \<notin> fst ` set ?files" by simp
  have s: "hasTypeScriptFilesLoop ?files =
             Inl (SystemError ''ENOENT: no such file or directory, stat /ws/app/lib'')"
    by (simp add: statSync_isDirectory_def)
  from compileTypeScript_scan_fails
         [OF sampleLaunchConfig_fields(1) sampleLaunchConfig_fields(2) sampleHost_readdir a s] m
  show ?thesis by (intro conjI)
qed

text \<open>
  C2, amended: for a configuration with target \<^verbatim>\<open>code\<close> and \<^verbatim>\<open>baseBuildDir\<close> set (as it is
  on every configuration \<^verbatim>\<open>makeTypescriptConfig\<close> returns) whose code root lists
  \<^verbatim>\<open>tsconfig.json\<close>, or holds a TypeScript file at some depth in a tree where every
  \<^verbatim>\<open>statSync\<close> and \<^verbatim>\<open>readdirSync\<close> succeeds, \<^verbatim>\<open>compileTypeScript\<close> first writes the default
  \<^verbatim>\<open>tsconfig.json\<close> into \<^verbatim>\<open>path.join(baseBuildDir, 'output', 'awsToolkitSamLocalResource')\<close>
  and, the write done, runs \<^verbatim>\<open>tsc --project\<close> on that directory; when the write or the
  subprocess fails it throws \<^verbatim>\<open>Failed to compile typescript Lambda\<close>, and otherwise it
  returns. The configuration is not changed.
\<close>

theorem compileTypeScript_compile_step:
  assumes code: "target (invokeTarget config) = ''code''"
    and build: "baseBuildDir config = Some buildDir"
    and root: "codeRoot config = Some root"
    and listing: "fileSystem host root = Some (Dir files)"
    and ts: "''tsconfig.json'' \<in> fst ` set files \<or>
             (readableTree files \<and>
              (\<exists>name. (name, File) \<in> set (entriesBelow files) \<and> suffix ''.ts'' name))"
    and appRoot: "appRoot = path_join [buildDir, ''output'', ''awsToolkitSamLocalResource'']"
    and tsconfigPath: "tsconfigPath = path_join [appRoot, ''tsconfig.json'']"
    and run: "compileTypeScript host config = (result, config', events)"
  shows "config' = config \<and>
         events \<noteq> [] \<and> hd events = WriteFileSync tsconfigPath defaultTsconfig \<and>
         (writeFileSync host tsconfigPath defaultTsconfig = None \<longrightarrow>
            ChildProcessRun (''tsc --project '' @ appRoot) \<in> set events) \<and>
         (writeFileSync host tsconfigPath defaultTsconfig \<noteq> None \<or>
          childProcessRun host (''tsc --project '' @ appRoot) \<noteq> None \<longrightarrow>
            result = Inl (Error ''Failed to compile typescript Lambda'')) \<and>
         (writeFileSync host tsconfigPath defaultTsconfig = None \<and>
          childProcessRun host (''tsc --project '' @ appRoot) = None \<longrightarrow>
            result = Inr ())"
proof -
  have rd: "readdir host (codeRoot config) = Inr files"
    using root listing by (simp add: readdir_Dir)
  have cond: "''tsconfig.json'' \<in> fst ` set files \<or> hasTypeScriptFilesLoop files = Inr True"
  proof (cases "''tsconfig.json'' \<in> fst ` set files")
    case True
    then show ?thesis by simp
  next
    case False
    with ts have r: "readableTree files"
      and e: "\<exists>name. (name, File) \<in> set (entriesBelow files) \<and> suffix ''.ts'' name"
      by blast+
    from e have "\<exists>entry \<in> set (entriesBelow files). suffix ''.ts'' (fst entry)" by force
    with hasTypeScriptFilesLoop_readable [OF r] show ?thesis by simp
  qed
  have "compileStep host config appRoot tsconfigPath = (result, config', events)"
    using compileTypeScript_compiles [OF code build rd cond appRoot tsconfigPath] run by simp
  then show ?thesis
    unfolding compileStep_outcome by (auto split: option.splits)
qed

theorem compileTypeScript_compile_step_witness:
  "fst (compileTypeScript (sampleHost [(''tsconfig.json'', File)]) sampleLaunchConfig) = Inr () \<and>
   ChildProcessRun ''tsc --project /tmp/build/output/awsToolkitSamLocalResource''
     \<in> set (snd (snd (compileTypeScript (sampleHost [(''tsconfig.json'', File)]) sampleLaunchConfig))) \<and>
   fst (compileTypeScript
          ((sampleHost [(''src'', Dir [(''app.ts'', File)])])
             \<lparr>childProcessRun := (\<lambda>command. Some (SystemError ''spawn tsc ENOENT''))\<rparr>)
          sampleLaunchConfig) = Inl (Error ''Failed to compile typescript Lambda'')"
proof -
  let ?h1 = "sampleHost [(''tsconfig.json'', File)]"
  let ?h2 = "(sampleHost [(''src'', Dir [(''app.ts'', File)])])
               \<lparr>childProcessRun := (\<lambda>command. Some (SystemError ''spawn tsc ENOENT''))\<rparr>"
  let ?app = "''/tmp/build/output/awsToolkitSamLocalResource''"
  let ?ts = "''/tmp/build/output/awsToolkitSamLocalResource/tsconfig.json''"
  have app: "?app = path_join [''/tmp/build'', ''output'', ''awsToolkitSamLocalResource'']"
    by (simp add: sample_appRoot)
  have tsp: "?ts = path_join [?app, ''tsconfig.json'']"
    by (simp add: sample_tsconfigPath)
  have l1: "fileSystem ?h1 ''/ws/app'' = Some (Dir [(''tsconfig.json'', File)])"
    by (simp add: sampleHost_def)
  have c1: "''tsconfig.json'' \<in> fst ` set [(''tsconfig.json'', File)] \<or>
            (readableTree [(''tsconfig.json'', File)] \<and>
             (\<exists>name. (name, File) \<in> set (entriesBelow [(''tsconfig.json'', File)]) \<and> suffix ''.ts'' name))"
    by simp
  have l2: "fileSystem ?h2 ''/ws/app'' = Some (Dir [(''src'', Dir [(''app.ts'', File)])])"
    by (simp add: sampleHost_def)
  have r2: "readableTree [(''src'', Dir [(''app.ts'', File)])]"
    by (simp add: readableTree_def)
  have "(''app.ts'', File) \<in> set (entriesBelow [(''src'', Dir [(''app.ts'', File)])]) \<and>
        suffix ''.ts'' ''app.ts''"
    by (simp add: suffix_def)
  then have "\<exists>name. (name, File) \<in> set (entriesBelow [(''src'', Dir [(''app.ts'', File)])]) \<and>
                     suffix ''.ts'' name"
    by (rule exI)
  with r2 have c2: "''tsconfig.json'' \<in> fst ` set [(''src'', Dir [(''app.ts'', File)])] \<or>
            (readableTree [(''src'', Dir [(''app.ts'', File)])] \<and>
             (\<exists>name. (name, File) \<in> set (entriesBelow [(''src'', Dir [(''app.ts'', File)])]) \<and>
                     suffix ''.ts'' name))"
    by (intro disjI2 conjI)
  obtain r1 k1 e1 where run1: "compileTypeScript ?h1 sampleLaunchConfig = (r1, k1, e1)"
    by (cases "compileTypeScript ?h1 sampleLaunchConfig") auto
  obtain r2 k2 e2 where run2: "compileTypeScript ?h2 sampleLaunchConfig = (r2, k2, e2)"
    by (cases "compileTypeScript ?h2 sampleLaunchConfig") auto
  have w1: "writeFileSync ?h1 ?ts defaultTsconfig = None"
    and p1: "childProcessRun ?h1 (''tsc --project '' @ ?app) = None"
    and p2: "childProcessRun ?h2 (''tsc --project '' @ ?app) \<noteq> None"
    by (simp_all add: sampleHost_def)
  from compileTypeScript_compile_step [OF sampleLaunchConfig_fields l1 c1 app tsp run1] w1 p1
  have "r1 = Inr ()" and "ChildProcessRun (''tsc --project '' @ ?app) \<in> set e1"
    by blast+
  moreover from compileTypeScript_compile_step [OF sampleLaunchConfig_fields l2 c2 app tsp run2] p2
  have "r2 = Inl (Error ''Failed to compile typescript Lambda'')"
    by blast
  ultimately show ?thesis by (simp add: run1 run2)
qed

text \<open>
  C3, as the claim states it, fails: a code root that holds \<^verbatim>\<open>app.js\<close> and a link to
  nothing has no \<^verbatim>\<open>tsconfig.json\<close> entry and no TypeScript file below it, and the call
  does not return without error: the search throws the error of \<^verbatim>\<open>statSync\<close>, outside
  the \<^verbatim>\<open>try\<close>.
\<close>

theorem no_compile_step_dangling_link_counterexample:
  "entriesBelow
      [(''app.js'', File),
       (''lib'', NoStat (SystemError ''ENOENT: no such file or directory, stat /ws/app/lib''))] =
      [(''app.js'', File),
       (''lib'', NoStat (SystemError ''ENOENT: no such file or directory, stat /ws/app/lib''))] \<and>
   compileTypeScript
     (sampleHost [(''app.js'', File),
                  (''lib'', NoStat (SystemError ''ENOENT: no such file or directory, stat /ws/app/lib''))])
     sampleLaunchConfig =
     (Inl (SystemError ''ENOENT: no such file or directory, stat /ws/app/lib''), sampleLaunchConfig, [])"
proof -
  let ?files = "[(''app.js'', File),
                 (''lib'', NoStat (SystemError ''ENOENT: no such file or directory, stat /ws/app/lib''))]"
  have m: "entriesBelow ?files = ?files" by simp
  have a: "''tsconfig.json'' \<notin> fst ` set ?files" by simp
  have s: "hasTypeScriptFilesLoop ?files =
             Inl (SystemError ''ENOENT: no such file or directory, stat /ws/app/lib'')"
    by (simp add: statSync_isDirectory_def)
  from compileTypeScript_scan_fails
         [OF sampleLaunchConfig_fields(1) sampleLaunchConfig_fields(2) sampleHost_readdir a s] m
  show ?thesis by (intro conjI)
qed

text \<open>
  C3, amended: when the target is not \<^verbatim>\<open>code\<close>, or the code root, where it is a
  directory that can be listed, has no \<^verbatim>\<open>tsconfig.json\<close> entry and no entry at any depth
  whose name ends in \<^verbatim>\<open>.ts\<close>, \<^verbatim>\<open>compileTypeScript\<close> performs no compile step: it writes
  no file, runs no subprocess and leaves the configuration unchanged. It then returns
  without error when the target is not \<^verbatim>\<open>code\<close>, or when \<^verbatim>\<open>baseBuildDir\<close> is set and the
  code root is a directory in whose tree every \<^verbatim>\<open>statSync\<close> and \<^verbatim>\<open>readdirSync\<close> succeeds.
\<close>

theorem compileTypeScript_no_compile_step:
  assumes idle: "target (invokeTarget config) \<noteq> ''code'' \<or>
      (\<forall>root files. codeRoot config = Some root \<and> fileSystem host root = Some (Dir files) \<longrightarrow>
         ''tsconfig.json'' \<notin> fst ` set files \<and>
         (\<forall>entry \<in> set (entriesBelow files). \<not> suffix ''.ts'' (fst entry)))"
  shows "snd (compileTypeScript host config) = (config, []) \<and>
         (target (invokeTarget config) \<noteq> ''code'' \<or>
          (\<exists>buildDir root files. baseBuildDir config = Some buildDir \<and>
             codeRoot config = Some root \<and> fileSystem host root = Some (Dir files) \<and>
             readableTree files) \<longrightarrow>
          fst (compileTypeScript host config) = Inr ())"
proof (cases "target (invokeTarget config) = ''code''")
  case False
  then show ?thesis by (simp add: compileTypeScript_def)
next
  case code: True
  show ?thesis
  proof (cases "baseBuildDir config")
    case None
    with code show ?thesis by (simp add: compileTypeScript_def)
  next
    case (Some buildDir)
    show ?thesis
    proof (cases "readdir host (codeRoot config)")
      case (Inl e)
      then have "\<not> (\<exists>root files. codeRoot config = Some root \<and> fileSystem host root = Some (Dir files))"
        using readdir_Dir [of host] by (metis sum.distinct(1))
      with code Some Inl show ?thesis by (simp add: compileTypeScript_def)
    next
      case (Inr files)
      then obtain root where r: "codeRoot config = Some root" "fileSystem host root = Some (Dir files)"
      proof (cases "codeRoot config")
        case None
        with Inr show ?thesis by (simp add: readdir_def nodeAt_def)
      next
        case (Some root)
        with Inr have "fileSystem host root = Some (Dir files)" by (simp add: readdir_Dir)
        with Some that show ?thesis by blast
      qed
      from idle code r have no: "''tsconfig.json'' \<notin> fst ` set files \<and>
         (\<forall>entry \<in> set (entriesBelow files). \<not> suffix ''.ts'' (fst entry))"
        by blast
      from no have a: "''tsconfig.json'' \<notin> fst ` set files" by blast
      from no have none: "\<not> (\<exists>entry \<in> set (entriesBelow files). suffix ''.ts'' (fst entry))"
        by blast
      show ?thesis
      proof (cases "hasTypeScriptFilesLoop files")
        case scan: (Inl e)
        then have "\<not> readableTree files"
          using hasTypeScriptFilesLoop_returns [of files] by auto
        with r have "\<not> (\<exists>buildDir root files. baseBuildDir config = Some buildDir \<and>
             codeRoot config = Some root \<and> fileSystem host root = Some (Dir files) \<and>
             readableTree files)"
          by auto
        with code compileTypeScript_scan_fails [OF code Some Inr a scan] show ?thesis by simp
      next
        case scan: (Inr b)
        from hasTypeScriptFilesLoop_result [OF scan] none have "b = False" by simp
        with scan have "hasTypeScriptFilesLoop files = Inr False" by simp
        from compileTypeScript_skips [OF code Some Inr a this] show ?thesis by simp
      qed
    qed
  qed
qed

theorem compileTypeScript_no_compile_step_witness:
  "compileTypeScript (sampleHost [(''app.ts'', File)])
     (sampleLaunchConfig\<lparr>invokeTarget := \<lparr>target = ''template''\<rparr>\<rparr>) =
     (Inr (), sampleLaunchConfig\<lparr>invokeTarget := \<lparr>target = ''template''\<rparr>\<rparr>, []) \<and>
   compileTypeScript (sampleHost [(''src'', Dir [(''app.js'', File)]), (''package.json'', File)])
     sampleLaunchConfig = (Inr (), sampleLaunchConfig, [])"
proof -
  let ?c1 = "sampleLaunchConfig\<lparr>invokeTarget := \<lparr>target = ''template''\<rparr>\<rparr>"
  let ?files = "[(''src'', Dir [(''app.js'', File)]), (''package.json'', File)]"
  have h1: "target (invokeTarget ?c1) \<noteq> ''code'' \<or>
      (\<forall>root files. codeRoot ?c1 = Some root \<and>
           fileSystem (sampleHost [(''app.ts'', File)]) root = Some (Dir files) \<longrightarrow>
         ''tsconfig.json'' \<notin> fst ` set files \<and>
         (\<forall>entry \<in> set (entriesBelow files). \<not> suffix ''.ts'' (fst entry)))"
    by simp
  have h2: "target (invokeTarget sampleLaunchConfig) \<noteq> ''code'' \<or>
      (\<forall>root files. codeRoot sampleLaunchConfig = Some root \<and>
           fileSystem (sampleHost ?files) root = Some (Dir files) \<longrightarrow>
         ''tsconfig.json'' \<notin> fst ` set files \<and>
         (\<forall>entry \<in> set (entriesBelow files). \<not> suffix ''.ts'' (fst entry)))"
    by (auto simp: sampleLaunchConfig_fields sampleHost_def suffix_def)
  have rt: "readableTree ?files" by (simp add: readableTree_def)
  have e2: "\<exists>buildDir root files. baseBuildDir sampleLaunchConfig = Some buildDir \<and>
             codeRoot sampleLaunchConfig = Some root \<and>
             fileSystem (sampleHost ?files) root = Some (Dir files) \<and> readableTree files"
    using rt by (simp add: sampleLaunchConfig_fields sampleHost_def)
  have t1: "target (invokeTarget ?c1) \<noteq> ''code''" by simp
  from compileTypeScript_no_compile_step [OF h1] t1
  have a: "compileTypeScript (sampleHost [(''app.ts'', File)]) ?c1 = (Inr (), ?c1, [])"
    by (metis prod.collapse)
  from compileTypeScript_no_compile_step [OF h2] e2
  have b: "compileTypeScript (sampleHost ?files) sampleLaunchConfig = (Inr (), sampleLaunchConfig, [])"
    by (metis prod.collapse)
  from a b show ?thesis by (rule conjI)
qed

subsection \<open>\<^verbatim>\<open>getSamProjectDirPathForFile\<close>\<close>


















text \<open>
  \<^verbatim>\<open>Uri.parse\<close> decodes escapes, so two file paths may be one URI: the search cannot
  tell them apart, whatever it does.
\<close>

lemma Uri_parse_escaped:
  "Uri_parse ''/ws/%61pp/src/app.js'' = Uri_parse ''/ws/app/src/app.js''"
  by code_simp




end
